theory Spec2Isabelle
  imports Complex_Main "HOL-Library.Char_ord" "HOL-Library.List_Lexorder" "HOL-Library.Multiset"
begin

section \<open>Apartment rent calculator: data model\<close>

text \<open>
  Python's unbounded integers are \<open>int\<close>; Python floats are idealised as \<open>real\<close>
  (every comparison and every bound below is between values that floats represent
  exactly or compare the same way). Strings are \<open>string\<close>.
\<close>

subsection \<open>Label encoder\<close>

text \<open>
  Modelled from the spec: the label encoder (sklearn's \<open>LabelEncoder\<close>, not part of the
  repository's sources). It is "a fitted, invertible mapping from a finite set of
  categorical string values to integer codes", fitted by "mapping each distinct observed
  label to a unique integer in first-seen or sorted order"; an unseen label is invalid
  input. The fitted state is the array \<open>classes_\<close> (here \<open>classes\<close>); the code of a
  label is its position in that array.
\<close>

record LabelEncoder =
  classes :: "string list"

datatype py_error = ValueError | KeyError

fun index_of :: "'a list \<Rightarrow> 'a \<Rightarrow> nat" where
  "index_of [] y = 0"
| "index_of (x # xs) y = (if x = y then 0 else Suc (index_of xs y))"

text \<open>Modelled from the spec: \<open>LabelEncoder.fit\<close>, the distinct labels in sorted order.\<close>

definition fit :: "string list \<Rightarrow> LabelEncoder" where
  "fit ys = \<lparr>classes = sort (remdups ys)\<rparr>"

text \<open>
  Modelled from the spec: \<open>le.transform([label])[0]\<close>. An unseen label raises
  \<open>ValueError\<close>.
\<close>

definition transform :: "LabelEncoder \<Rightarrow> string \<Rightarrow> py_error + nat" where
  "transform le label =
     (if label \<in> set (classes le) then Inr (index_of (classes le) label)
      else Inl ValueError)"

text \<open>
  Modelled from the spec: \<open>le.inverse_transform([code])[0]\<close>, the inverse lookup. A code
  outside the fitted range raises \<open>ValueError\<close>.
\<close>

definition inverse_transform :: "LabelEncoder \<Rightarrow> nat \<Rightarrow> py_error + string" where
  "inverse_transform le code =
     (if code < length (classes le) then Inr (classes le ! code) else Inl ValueError)"

subsection \<open>Artifacts\<close>

text \<open>
  The conformal wrapper (MAPIE's regressor) is an external collaborator: a prediction for
  one encoded row at significance \<open>alpha\<close> either raises (\<open>Inl\<close>, carrying \<open>str(e)\<close>)
  or returns the point estimate \<open>prediction[0]\<close> and the bounds
  \<open>prediction_intervals[0, 0, 0]\<close>, \<open>prediction_intervals[0, 1, 0]\<close>.
\<close>

type_synonym conformal_predictor = "real list \<Rightarrow> real \<Rightarrow> string + (real \<times> real \<times> real)"

text \<open>The four objects loaded at start-up (\<open>api.py\<close> lines 17-20, \<open>app.py\<close> lines 17-20).\<close>

record artifacts =
  model :: "real list \<Rightarrow> real"
  conformal_model :: conformal_predictor
  le_floor :: LabelEncoder
  le_style :: LabelEncoder

section \<open>Prediction service (\<open>api.py\<close>)\<close>

record ApartmentFeatures =
  rooms :: int
  bathrooms :: int
  total_surface :: real
  building_age :: int
  floor_material :: string
  style :: string

text \<open>
  A number of the request body as Python reads it. A JSON number beyond the range of a
  double, such as \<open>1e309\<close>, is read as an infinity, and the literals \<open>Infinity\<close> and
  \<open>-Infinity\<close> are accepted too. (The literal \<open>NaN\<close> is accepted as well; how the
  constraint comparisons of the validation library treat it is not modelled.)
\<close>

datatype py_float = Finite real | PosInf | NegInf

fun is_finite :: "py_float \<Rightarrow> bool" where
  "is_finite (Finite v) = True"
| "is_finite PosInf = False"
| "is_finite NegInf = False"

text \<open>
  The body of \<open>POST /predict\<close> after parsing, before an \<open>ApartmentFeatures\<close> is
  constructed from it: the six fields are present, the integer fields hold integers, the
  float field any Python float.
\<close>

record request_body =
  json_rooms :: int
  json_bathrooms :: int
  json_total_surface :: py_float
  json_building_age :: int
  json_floor_material :: string
  json_style :: string

text \<open>
  The detail of an \<open>HTTPException\<close> is an f-string: its literal text and the value
  interpolated into it (\<open>le.classes_.tolist()\<close>, or \<open>str(e)\<close>).
\<close>

datatype interpolated = ListOfStr "string list" | Str string

text \<open>
  One entry of a validation error: the field, the violated constraint with its bound, and
  the offending input, which the error response echoes.
\<close>

record validation_error =
  loc :: string
  err_type :: string
  bound :: real
  input_value :: py_float

text \<open>
  What a request ends in when it does not return a body. \<open>HTTPException\<close> is raised by
  the handler. \<open>RequestValidationError\<close> is the framework's answer when the body does
  not construct an \<open>ApartmentFeatures\<close>, before the handler is called.
  \<open>InternalServerError\<close> is the framework's answer to an exception nothing handles.
\<close>

datatype http_error =
    HTTPException (status_code: nat) (detail: "string \<times> interpolated")
  | RequestValidationError "validation_error list"
  | InternalServerError

record confidence_interval_t =
  lower :: real
  upper :: real

record prediction_response =
  predicted_rent :: real
  confidence_interval :: confidence_interval_t
  confidence_level :: string
  currency :: string
  features :: ApartmentFeatures

subsection \<open>Request construction: the \<open>Field\<close> constraints of \<open>ApartmentFeatures\<close>\<close>

definition check_ge :: "string \<Rightarrow> real \<Rightarrow> real \<Rightarrow> validation_error list" where
  "check_ge name b v =
     (if v \<ge> b then []
      else [\<lparr>loc = name, err_type = ''greater_than_equal'', bound = b, input_value = Finite v\<rparr>])"

definition check_le :: "string \<Rightarrow> real \<Rightarrow> real \<Rightarrow> validation_error list" where
  "check_le name b v =
     (if v \<le> b then []
      else [\<lparr>loc = name, err_type = ''less_than_equal'', bound = b, input_value = Finite v\<rparr>])"

definition check_field :: "string \<Rightarrow> real \<Rightarrow> real \<Rightarrow> real \<Rightarrow> validation_error list" where
  "check_field name lo hi v = check_ge name lo v @ check_le name hi v"

text \<open>
  \<open>rooms: ge=1, le=5\<close>; \<open>bathrooms: ge=1, le=3\<close>; \<open>total_surface: ge=30, le=200\<close>;
  \<open>building_age: ge=0, le=50\<close>; the two string fields carry no constraint. Errors are
  collected in field order.
\<close>

definition field_errors :: "ApartmentFeatures \<Rightarrow> validation_error list" where
  "field_errors f =
     check_field ''rooms'' 1 5 (real_of_int (rooms f)) @
     check_field ''bathrooms'' 1 3 (real_of_int (bathrooms f)) @
     check_field ''total_surface'' 30 200 (total_surface f) @
     check_field ''building_age'' 0 50 (real_of_int (building_age f))"

text \<open>
  The same constraints on the parsed body. An infinite \<open>total_surface\<close> violates the
  bound on its side.
\<close>

definition surface_errors :: "py_float \<Rightarrow> validation_error list" where
  "surface_errors x =
     (case x of
        Finite v \<Rightarrow> check_field ''total_surface'' 30 200 v
      | PosInf \<Rightarrow> [\<lparr>loc = ''total_surface'', err_type = ''less_than_equal'', bound = 200,
                    input_value = PosInf\<rparr>]
      | NegInf \<Rightarrow> [\<lparr>loc = ''total_surface'', err_type = ''greater_than_equal'', bound = 30,
                    input_value = NegInf\<rparr>])"

definition body_errors :: "request_body \<Rightarrow> validation_error list" where
  "body_errors b =
     check_field ''rooms'' 1 5 (real_of_int (json_rooms b)) @
     check_field ''bathrooms'' 1 3 (real_of_int (json_bathrooms b)) @
     surface_errors (json_total_surface b) @
     check_field ''building_age'' 0 50 (real_of_int (json_building_age b))"

text \<open>
  Request construction: the errors, or the \<open>ApartmentFeatures\<close> the handler receives.
\<close>

definition validate :: "request_body \<Rightarrow> validation_error list + ApartmentFeatures" where
  "validate b =
     (case json_total_surface b of
        Finite v \<Rightarrow>
          (case body_errors b of
             [] \<Rightarrow> Inr \<lparr>rooms = json_rooms b, bathrooms = json_bathrooms b,
                        total_surface = v, building_age = json_building_age b,
                        floor_material = json_floor_material b, style = json_style b\<rparr>
           | e # es \<Rightarrow> Inl (e # es))
      | PosInf \<Rightarrow> Inl (body_errors b)
      | NegInf \<Rightarrow> Inl (body_errors b))"

subsection \<open>\<open>predict_rent\<close>\<close>

text \<open>What can be raised inside the handler's \<open>try\<close> block.\<close>

datatype raised = RaisedHTTP nat "string \<times> interpolated" | RaisedOther string

text \<open>
  \<open>round(float(x), 2)\<close>: rounding to two decimals, ties to even.
\<close>

definition round_half_even :: "real \<Rightarrow> int" where
  "round_half_even x =
     (let f = \<lfloor>x\<rfloor>; d = x - real_of_int f
      in if d < 1 / 2 then f
         else if d > 1 / 2 then f + 1
         else if even f then f else f + 1)"

definition round2 :: "real \<Rightarrow> real" where
  "round2 x = real_of_int (round_half_even (x * 100)) / 100"

text \<open>The \<open>features_array\<close> of lines 78-85, one row of six numbers.\<close>

definition features_array :: "ApartmentFeatures \<Rightarrow> nat \<Rightarrow> nat \<Rightarrow> real list" where
  "features_array f floor_encoded style_encoded =
     [real_of_int (rooms f), real_of_int (bathrooms f), total_surface f,
      real_of_int (building_age f), real floor_encoded, real style_encoded]"

text \<open>
  Lines 62 and 67, \<open>x in le.classes_\<close>: membership in a numpy array of strings is
  element-wise equality, and numpy's equality of strings takes no account of trailing NUL
  characters (the padding of its fixed-width strings).
\<close>

definition rstrip_nul :: "string \<Rightarrow> string" where
  "rstrip_nul s = rev (dropWhile (\<lambda>c. c = CHR 0x00) (rev s))"

definition np_contains :: "string list \<Rightarrow> string \<Rightarrow> bool" where
  "np_contains arr x = (rstrip_nul x \<in> rstrip_nul ` set arr)"

text \<open>
  The body of the \<open>try\<close> block, lines 61-101. A \<open>transform\<close> that raises carries
  the encoder's message, which goes on to quote the label.
\<close>

definition predict_rent_body :: "artifacts \<Rightarrow> ApartmentFeatures \<Rightarrow> raised + prediction_response" where
  "predict_rent_body a f =
     (if \<not> np_contains (classes (le_floor a)) (floor_material f) then
        Inl (RaisedHTTP 400
              (''Invalid floor_material. Valid values are: '', ListOfStr (classes (le_floor a))))
      else if \<not> np_contains (classes (le_style a)) (style f) then
        Inl (RaisedHTTP 400
              (''Invalid style. Valid values are: '', ListOfStr (classes (le_style a))))
      else
        (case transform (le_floor a) (floor_material f) of
           Inl e \<Rightarrow> Inl (RaisedOther ''y contains previously unseen labels'')
         | Inr floor_encoded \<Rightarrow>
        (case transform (le_style a) (style f) of
           Inl e \<Rightarrow> Inl (RaisedOther ''y contains previously unseen labels'')
         | Inr style_encoded \<Rightarrow>
        (case conformal_model a (features_array f floor_encoded style_encoded) (5 / 100) of
           Inl e \<Rightarrow> Inl (RaisedOther e)
         | Inr (prediction, lo, hi) \<Rightarrow>
             Inr \<lparr>predicted_rent = round2 prediction,
                  confidence_interval = \<lparr>lower = round2 lo, upper = round2 hi\<rparr>,
                  confidence_level = ''95%'',
                  currency = ''USD'',
                  features = f\<rparr>))))"

text \<open>
  The handler: an \<open>HTTPException\<close> is re-raised as it is, any other exception becomes
  status 500 (lines 102-106).
\<close>

definition predict_rent :: "artifacts \<Rightarrow> ApartmentFeatures \<Rightarrow> http_error + prediction_response" where
  "predict_rent a f =
     (case predict_rent_body a f of
        Inl (RaisedHTTP s d) \<Rightarrow> Inl (HTTPException s d)
      | Inl (RaisedOther e) \<Rightarrow> Inl (HTTPException 500 (''Prediction error: '', Str e))
      | Inr r \<Rightarrow> Inr r)"

text \<open>
  The framework's answer to a body that does not construct: status 422 with the error
  list as its content. The content echoes each offending input, and rendering it as JSON
  raises for an infinite number; that exception is not handled.
\<close>

definition validation_response :: "validation_error list \<Rightarrow> http_error" where
  "validation_response es =
     (if list_all (\<lambda>e. is_finite (input_value e)) es then RequestValidationError es
      else InternalServerError)"

text \<open>
  \<open>POST /predict\<close>: the framework constructs \<open>ApartmentFeatures\<close> from the body and
  calls the handler only when construction succeeds.
\<close>

definition post_predict :: "artifacts \<Rightarrow> request_body \<Rightarrow> http_error + prediction_response" where
  "post_predict a body =
     (case validate body of
        Inl es \<Rightarrow> Inl (validation_response es)
      | Inr f \<Rightarrow> predict_rent a f)"

text \<open>
  The status line of a response. A rendered validation error has status 422, the
  framework's default (\<open>api.py\<close> registers no handler of its own); an unhandled exception
  has status 500.
\<close>

fun http_status :: "http_error + prediction_response \<Rightarrow> nat" where
  "http_status (Inr r) = 200"
| "http_status (Inl (HTTPException s d)) = s"
| "http_status (Inl (RequestValidationError es)) = 422"
| "http_status (Inl InternalServerError) = 500"

subsection \<open>\<open>model_info\<close>\<close>

text \<open>
  The body of \<open>GET /info\<close> (lines 111-121). The nested dictionary is flattened: each
  numeric feature's \<open>{"min": .., "max": ..}\<close> is a pair, \<open>floor_materials\<close> and
  \<open>styles\<close> are \<open>le_floor.classes_.tolist()\<close> and \<open>le_style.classes_.tolist()\<close>.
\<close>

record model_info_t =
  model_type :: string
  info_rooms :: "int \<times> int"
  info_bathrooms :: "int \<times> int"
  info_total_surface :: "int \<times> int"
  info_building_age :: "int \<times> int"
  floor_materials :: "string list"
  styles :: "string list"

definition model_info :: "artifacts \<Rightarrow> model_info_t" where
  "model_info a =
     \<lparr>model_type = ''RandomForestRegressor'',
      info_rooms = (1, 5),
      info_bathrooms = (1, 3),
      info_total_surface = (30, 200),
      info_building_age = (0, 50),
      floor_materials = classes (le_floor a),
      styles = classes (le_style a)\<rparr>"

text \<open>The numeric part of the \<open>/info\<close> body.\<close>

definition info_bounds :: "model_info_t \<Rightarrow> (int \<times> int) list" where
  "info_bounds i = [info_rooms i, info_bathrooms i, info_total_surface i, info_building_age i]"

definition in_bounds :: "int \<times> int \<Rightarrow> real \<Rightarrow> bool" where
  "in_bounds b v = (real_of_int (fst b) \<le> v \<and> v \<le> real_of_int (snd b))"

subsection \<open>Example artifacts and requests\<close>

text \<open>
  Encoders as the trainer fits them on the generator's label sets (sorted), and two
  stand-ins for the conformal wrapper.
\<close>

definition demo_artifacts :: artifacts where
  "demo_artifacts =
     \<lparr>model = (\<lambda>x. 2500),
      conformal_model = (\<lambda>x alpha. Inr (2500.004, 2100.125, 2900.135)),
      le_floor = \<lparr>classes = [''Carpet'', ''Hardwood'', ''Laminate'', ''Tile'', ''Vinyl'']\<rparr>,
      le_style = \<lparr>classes = [''Contemporary'', ''Industrial'', ''Minimalist'', ''Modern'',
                              ''Traditional'']\<rparr>\<rparr>"

definition other_artifacts :: artifacts where
  "other_artifacts =
     \<lparr>model = (\<lambda>x. 0),
      conformal_model = (\<lambda>x alpha. Inl ''not fitted''),
      le_floor = \<lparr>classes = [''Marble'']\<rparr>,
      le_style = \<lparr>classes = [''Gothic'']\<rparr>\<rparr>"

definition demo_features :: ApartmentFeatures where
  "demo_features =
     \<lparr>rooms = 2, bathrooms = 1, total_surface = 80, building_age = 10,
      floor_material = ''Hardwood'', style = ''Modern''\<rparr>"

text \<open>The same feature vector as a request body.\<close>

definition demo_body :: request_body where
  "demo_body =
     \<lparr>json_rooms = 2, json_bathrooms = 1, json_total_surface = Finite 80,
      json_building_age = 10, json_floor_material = ''Hardwood'', json_style = ''Modern''\<rparr>"

text \<open>Artifacts whose conformal wrapper returns a lower bound above the upper bound.\<close>

definition disordered_artifacts :: artifacts where
  "disordered_artifacts =
     \<lparr>model = (\<lambda>x. 7),
      conformal_model = (\<lambda>x alpha. Inr (7, 10, 5)),
      le_floor = \<lparr>classes = [''Carpet'', ''Hardwood'', ''Laminate'', ''Tile'', ''Vinyl'']\<rparr>,
      le_style = \<lparr>classes = [''Contemporary'', ''Industrial'', ''Minimalist'', ''Modern'',
                              ''Traditional'']\<rparr>\<rparr>"

section \<open>Interactive form (\<open>app.py\<close>)\<close>

text \<open>
  One run of the script: the six widget values (the dictionary the script stores as
  \<open>st.session_state.last_prediction\<close>, here an \<open>ApartmentFeatures\<close> record; the
  \<open>total_surface\<close> widget yields a whole number) and whether the button was pressed.
\<close>

definition surface_warning :: string where
  "surface_warning = ''The total surface seems too small for the number of rooms.''"

definition bathrooms_warning :: string where
  "bathrooms_warning = ''The number of bathrooms is unusually high for the number of rooms.''"

text \<open>Lines 60-64: the two \<open>st.warning\<close> calls, in order.\<close>

definition input_validation :: "ApartmentFeatures \<Rightarrow> string list" where
  "input_validation w =
     (if total_surface w < real_of_int (rooms w * 15) then [surface_warning] else []) @
     (if bathrooms w > rooms w then [bathrooms_warning] else [])"

text \<open>The column list of \<open>app.py\<close> line 78 and of \<open>train_model.py\<close> line 26.\<close>

definition features_app :: "string list" where
  "features_app = [''rooms'', ''bathrooms'', ''total_surface'', ''building_age'',
                   ''floor_material_encoded'', ''style_encoded'']"

definition features_train :: "string list" where
  "features_train = [''rooms'', ''bathrooms'', ''total_surface'', ''building_age'',
                     ''floor_material_encoded'', ''style_encoded'']"

text \<open>
  Lines 81-88: the one-row data frame, as its columns in the order they are written.
  \<open>transform\<close> is called outside the \<open>try\<close>, so its error ends the run.
\<close>

definition input_data :: "artifacts \<Rightarrow> ApartmentFeatures \<Rightarrow> py_error + (string \<times> real) list" where
  "input_data models w =
     (case transform (le_floor models) (floor_material w) of
        Inl e \<Rightarrow> Inl e
      | Inr floor_encoded \<Rightarrow>
     (case transform (le_style models) (style w) of
        Inl e \<Rightarrow> Inl e
      | Inr style_encoded \<Rightarrow>
          Inr [(''rooms'', real_of_int (rooms w)),
               (''bathrooms'', real_of_int (bathrooms w)),
               (''total_surface'', total_surface w),
               (''building_age'', real_of_int (building_age w)),
               (''floor_material_encoded'', real floor_encoded),
               (''style_encoded'', real style_encoded)]))"

text \<open>Line 91, \<open>input_data[features]\<close>: the named columns in the given order.\<close>

definition select_columns :: "(string \<times> real) list \<Rightarrow> string list \<Rightarrow> py_error + real list" where
  "select_columns df cols =
     (if set cols \<subseteq> fst ` set df then Inr (map (\<lambda>c. the (map_of df c)) cols)
      else Inl KeyError)"

text \<open>
  What a pressed button ends in: an exception (the script re-raises it after showing
  it), or the point estimate and the two bounds that the script displays.
\<close>

datatype form_failure = EncodingFailed py_error | PredictionFailed string

definition form_predict :: "artifacts \<Rightarrow> ApartmentFeatures \<Rightarrow> form_failure + (real \<times> real \<times> real)" where
  "form_predict models w =
     (case input_data models w of
        Inl e \<Rightarrow> Inl (EncodingFailed e)
      | Inr df \<Rightarrow>
     (case select_columns df features_app of
        Inl e \<Rightarrow> Inl (EncodingFailed e)
      | Inr row \<Rightarrow>
     (case conformal_model models row (5 / 100) of
        Inl e \<Rightarrow> Inl (PredictionFailed e)
      | Inr r \<Rightarrow> Inr r)))"

record form_output =
  warnings :: "string list"
  prediction :: "(form_failure + (real \<times> real \<times> real)) option"

text \<open>
  The script from line 59 on: warnings first, then the button; the predict sequence runs
  when \<open>calculate\<close> is true.
\<close>

definition form_run :: "artifacts \<Rightarrow> ApartmentFeatures \<Rightarrow> bool \<Rightarrow> form_output" where
  "form_run models w calculate =
     \<lparr>warnings = input_validation w,
      prediction = (if calculate then Some (form_predict models w) else None)\<rparr>"

section \<open>Trainer (\<open>train_model.py\<close>)\<close>

record apartment_row = ApartmentFeatures +
  monthly_rent :: real

text \<open>Lines 15-19: one encoder per categorical column of the data set.\<close>

definition fit_encoders :: "apartment_row list \<Rightarrow> LabelEncoder \<times> LabelEncoder" where
  "fit_encoders df = (fit (map floor_material df), fit (map style df))"

text \<open>
  Lines 26-29: the feature matrix. A row of \<open>X\<close> is the six columns of \<open>features\<close> in
  order, the two categorical ones as the codes \<open>fit_transform\<close> assigns (every label of
  the column is a class of the encoder fitted on that column); \<open>y\<close> is \<open>monthly_rent\<close>.
\<close>

type_synonym samples = "(real list \<times> real) list"

definition encoded_features :: "LabelEncoder \<times> LabelEncoder \<Rightarrow> apartment_row \<Rightarrow> real list" where
  "encoded_features les row =
     [real_of_int (rooms row), real_of_int (bathrooms row), total_surface row,
      real_of_int (building_age row),
      real (index_of (classes (fst les)) (floor_material row)),
      real (index_of (classes (snd les)) (style row))]"

text \<open>
  Modelled from the spec: the learning library (sklearn's split and random forest, MAPIE's
  wrapper; not part of the repository's sources). The regression algorithm, the shuffle
  and the interval computation are parameters. The split is "(b) split rows into training
  and held-out subsets (80/20)": of the shuffled rows the first \<open>ceil(test_size * n)\<close> are
  held out, the rest are the training subset, and an empty training subset is an error.
  The wrapper is "(d) ... calibrating on the same fitted model without refitting": fitted
  in prefit mode it keeps its estimator and computes the calibration residuals of the
  data it is given; in any other mode it fits the estimator first. Asked for intervals at
  significance \<open>alpha\<close>, the wrapper raises \<open>ValueError\<close> when it holds fewer than
  \<open>1 / alpha\<close> or \<open>1 / (1 - alpha)\<close> calibration residuals.
\<close>

type_synonym regressor = "real list \<Rightarrow> real"

record MapieRegressor =
  estimator :: regressor
  conformal_method :: string
  cv :: string
  conformity_scores :: "real list"

record learners =
  shuffled :: "nat \<Rightarrow> nat list"
  forest_fit :: "samples \<Rightarrow> regressor"
  mapie_predict :: "MapieRegressor \<Rightarrow> real list \<Rightarrow> real \<Rightarrow> real \<times> real \<times> real"

definition train_test_split :: "nat list \<Rightarrow> samples \<Rightarrow> real \<Rightarrow> py_error + (samples \<times> samples)" where
  "train_test_split perm xy test_size =
     (let n = length xy;
          n_test = nat \<lceil>test_size * real n\<rceil>;
          n_train = n - n_test
      in if n_train = 0 then Inl ValueError
         else Inr (map ((!) xy) (take n_train (drop n_test perm)),
                   map ((!) xy) (take n_test perm)))"

definition residuals :: "regressor \<Rightarrow> samples \<Rightarrow> real list" where
  "residuals e xy = map (\<lambda>(x, y). \<bar>y - e x\<bar>) xy"

definition mapie_fit :: "learners \<Rightarrow> MapieRegressor \<Rightarrow> samples \<Rightarrow> MapieRegressor" where
  "mapie_fit L m xy =
     (if cv m = ''prefit'' then m\<lparr>conformity_scores := residuals (estimator m) xy\<rparr>
      else m\<lparr>estimator := forest_fit L xy,
              conformity_scores := residuals (forest_fit L xy) xy\<rparr>)"

text \<open>\<open>mapie.predict(X, alpha=alpha)\<close> on the rows \<open>xs\<close>.\<close>

definition wrapper_predict ::
    "learners \<Rightarrow> MapieRegressor \<Rightarrow> real list list \<Rightarrow> real \<Rightarrow> py_error + (real \<times> real \<times> real) list" where
  "wrapper_predict L m xs alpha =
     (if real (length (conformity_scores m)) < max (1 / alpha) (1 / (1 - alpha))
      then Inl ValueError
      else Inr (map (\<lambda>x. mapie_predict L m x alpha) xs))"

text \<open>
  \<open>train_model\<close>, lines 10-65, on the table read from the file: what the run fits and
  saves, the two subsets, and the intervals computed on the held-out subset (line 50).
\<close>

record training_run =
  encoders :: "LabelEncoder \<times> LabelEncoder"
  train_rows :: samples
  test_rows :: samples
  base_model :: regressor
  mapie :: MapieRegressor
  y_pis :: "(real \<times> real \<times> real) list"

definition train_model :: "learners \<Rightarrow> apartment_row list \<Rightarrow> py_error + training_run" where
  "train_model L df =
     (let les = fit_encoders df;
          xy = map (\<lambda>row. (encoded_features les row, monthly_rent row)) df
      in case train_test_split (shuffled L (length df)) xy (2 / 10) of
           Inl e \<Rightarrow> Inl e
         | Inr (train, test) \<Rightarrow>
             (let fitted = forest_fit L train;
                  wrapper = mapie_fit L \<lparr>estimator = fitted, conformal_method = ''plus'', cv = ''prefit'',
                                         conformity_scores = []\<rparr> train
              in case wrapper_predict L wrapper (map fst test) (5 / 100) of
                   Inl e \<Rightarrow> Inl e
                 | Inr intervals \<Rightarrow>
                     Inr \<lparr>encoders = les, train_rows = train, test_rows = test,
                          base_model = fitted, mapie = wrapper, y_pis = intervals\<rparr>))"

text \<open>Stand-ins for the learning library, for the examples.\<close>

definition demo_learners :: learners where
  "demo_learners =
     \<lparr>shuffled = (\<lambda>n. rev [0..<n]),
      forest_fit = (\<lambda>xy x. 2000),
      mapie_predict = (\<lambda>m x alpha. (estimator m x, estimator m x - 500, estimator m x + 500))\<rparr>"

text \<open>A three-row data set for the examples, and one of 27 rows made of nine copies of it.\<close>

definition demo_df :: "apartment_row list" where
  "demo_df =
     [\<lparr>rooms = 2, bathrooms = 1, total_surface = 80, building_age = 10,
       floor_material = ''Tile'', style = ''Modern'', monthly_rent = 2500\<rparr>,
      \<lparr>rooms = 3, bathrooms = 2, total_surface = 95.5, building_age = 0,
       floor_material = ''Carpet'', style = ''Industrial'', monthly_rent = 3100\<rparr>,
      \<lparr>rooms = 1, bathrooms = 1, total_surface = 30, building_age = 49,
       floor_material = ''Tile'', style = ''Modern'', monthly_rent = 1400\<rparr>]"

definition training_df :: "apartment_row list" where
  "training_df = concat (replicate 9 demo_df)"

section \<open>Data generator (\<open>data_generator.py\<close>)\<close>

text \<open>
  Modelled from the spec: the random source (numpy's global generator, which the script
  never seeds; not part of the repository's sources). The spec's contract is a "uniform
  random multiplicative factor in a fixed range" and categorical fields "drawn uniformly at
  random from fixed label sets"; the distribution is not modelled, the ranges are. The
  state is the stream of raw draws still to come. Each operation reduces raw draws into
  its range: \<open>randint(low, high, size)\<close> into the integers from \<open>low\<close> up to but
  excluding \<open>high\<close>, \<open>uniform(low, high)\<close> into \<open>low + (high - low) * r\<close> for a
  53-bit fraction \<open>r\<close> of the half-open unit interval, \<open>choice(a, size)\<close> into the
  elements of the non-empty list \<open>a\<close>.
\<close>

type_synonym random_state = "nat \<Rightarrow> nat"

definition advance :: "nat \<Rightarrow> random_state \<Rightarrow> random_state" where
  "advance k s = (\<lambda>i. s (i + k))"

definition randint :: "int \<Rightarrow> int \<Rightarrow> nat \<Rightarrow> random_state \<Rightarrow> int list \<times> random_state" where
  "randint low high sz s =
     (map (\<lambda>i. low + int (s i mod nat (high - low))) [0..<sz], advance sz s)"

definition random_sample :: "nat \<Rightarrow> real" where
  "random_sample k = real (k mod 2 ^ 53) / 2 ^ 53"

definition uniform :: "real \<Rightarrow> real \<Rightarrow> nat \<Rightarrow> random_state \<Rightarrow> real list \<times> random_state" where
  "uniform low high sz s =
     (map (\<lambda>i. low + (high - low) * random_sample (s i)) [0..<sz], advance sz s)"

text \<open>The scalar form, \<open>np.random.uniform(low, high)\<close> with no size.\<close>

definition uniform1 :: "real \<Rightarrow> real \<Rightarrow> random_state \<Rightarrow> real \<times> random_state" where
  "uniform1 low high s = (low + (high - low) * random_sample (s 0), advance 1 s)"

definition choice :: "'a list \<Rightarrow> nat \<Rightarrow> random_state \<Rightarrow> 'a list \<times> random_state" where
  "choice a sz s = (map (\<lambda>i. a ! (s i mod length a)) [0..<sz], advance sz s)"

text \<open>Lines 9-10.\<close>

definition floor_materials_list :: "string list" where
  "floor_materials_list = [''Hardwood'', ''Carpet'', ''Tile'', ''Laminate'', ''Vinyl'']"

definition styles_list :: "string list" where
  "styles_list = [''Modern'', ''Contemporary'', ''Traditional'', ''Industrial'', ''Minimalist'']"

text \<open>The dictionary \<open>data\<close> of lines 12-20, without the list the loop appends to.\<close>

record data_columns =
  rooms_col :: "int list"
  bathrooms_col :: "int list"
  total_surface_col :: "real list"
  building_age_col :: "int list"
  floor_material_col :: "string list"
  style_col :: "string list"

text \<open>
  Lines 24-34: \<open>base_rent\<close> at the end of iteration \<open>i\<close>, \<open>u\<close> being the factor drawn
  on line 34. The index is below the length of every column.
\<close>

definition base_rent :: "data_columns \<Rightarrow> nat \<Rightarrow> real \<Rightarrow> real" where
  "base_rent data i u =
     (real_of_int (1000 + rooms_col data ! i * 300 + bathrooms_col data ! i * 200)
        + total_surface_col data ! i * 10
        - real_of_int (building_age_col data ! i * 10)) * u"

text \<open>One iteration of the loop: the state is the list appended to and the random source.\<close>

definition rent_step :: "data_columns \<Rightarrow> real list \<times> random_state \<Rightarrow> nat \<Rightarrow> real list \<times> random_state" where
  "rent_step data st i =
     (case st of (rents, s) \<Rightarrow>
        (case uniform1 0.8 1.2 s of (u, s') \<Rightarrow>
           (rents @ [max (base_rent data i u) 500], s')))"

text \<open>
  \<open>generate_apartment_data(n_samples)\<close>. A negative count makes the first array draw
  raise \<open>ValueError\<close>. The frame is returned as its list of rows.
\<close>

definition generate_apartment_data :: "int \<Rightarrow> random_state \<Rightarrow> py_error + apartment_row list" where
  "generate_apartment_data n_samples s0 =
     (if n_samples < 0 then Inl ValueError
      else
        (let n = nat n_samples in
         case randint 1 6 n s0 of (c_rooms, s1) \<Rightarrow>
         case randint 1 4 n s1 of (c_bathrooms, s2) \<Rightarrow>
         case uniform 30 200 n s2 of (c_surface, s3) \<Rightarrow>
         case randint 0 50 n s3 of (c_age, s4) \<Rightarrow>
         case choice floor_materials_list n s4 of (c_floor, s5) \<Rightarrow>
         case choice styles_list n s5 of (c_style, s6) \<Rightarrow>
         (let data = \<lparr>rooms_col = c_rooms, bathrooms_col = c_bathrooms,
                      total_surface_col = c_surface, building_age_col = c_age,
                      floor_material_col = c_floor, style_col = c_style\<rparr>
          in case foldl (rent_step data) ([], s6) [0..<n] of (rents, s7) \<Rightarrow>
               Inr (map (\<lambda>i. \<lparr>rooms = c_rooms ! i, bathrooms = c_bathrooms ! i,
                                total_surface = c_surface ! i, building_age = c_age ! i,
                                floor_material = c_floor ! i, style = c_style ! i,
                                monthly_rent = rents ! i\<rparr>) [0..<n]))))"

text \<open>
  Row \<open>i\<close> of the table for \<open>n\<close> samples in closed form, for the proofs: the six column
  draws use the raw draws \<open>i\<close>, \<open>i + n\<close>, ..., \<open>i + 5 n\<close>, the loop's factor the raw draw
  \<open>i + 6 n\<close>.
\<close>

definition generated_row :: "random_state \<Rightarrow> nat \<Rightarrow> nat \<Rightarrow> apartment_row" where
  "generated_row s n i =
     \<lparr>rooms = 1 + int (s i mod 5),
      bathrooms = 1 + int (s (i + n) mod 3),
      total_surface = 30 + 170 * random_sample (s (i + (n + n))),
      building_age = int (s (i + (n + n + n)) mod 50),
      floor_material = floor_materials_list ! (s (i + (n + n + n + n)) mod 5),
      style = styles_list ! (s (i + (n + n + n + n + n)) mod 5),
      monthly_rent =
        max ((real_of_int (1000 + (1 + int (s i mod 5)) * 300 + (1 + int (s (i + n) mod 3)) * 200)
              + (30 + 170 * random_sample (s (i + (n + n)))) * 10
              - real_of_int (int (s (i + (n + n + n)) mod 50) * 10))
             * (0.8 + (1.2 - 0.8) * random_sample (s (i + (n + n + n + n + n + n))))) 500\<rparr>"

text \<open>A random source for the examples: fourteen raw draws, then zeros.\<close>

definition demo_draws :: random_state where
  "demo_draws =
     (\<lambda>i. if i < 14
           then [2, 5, 8, 11, 4503599627370496, 2251799813685248, 49, 50, 0, 6, 3, 9,
                 4503599627370496, 0] ! i
           else 0)"

section \<open>Theorems\<close>

subsection \<open>Helper facts about request construction\<close>

lemma check_field_empty_iff: "check_field n lo hi v = [] \<longleftrightarrow> lo \<le> v \<and> v \<le> hi"
  by (simp add: check_field_def check_ge_def check_le_def)

lemma field_errors_empty_iff:
  "field_errors f = [] \<longleftrightarrow>
     1 \<le> rooms f \<and> rooms f \<le> 5 \<and> 1 \<le> bathrooms f \<and> bathrooms f \<le> 3 \<and>
     30 \<le> total_surface f \<and> total_surface f \<le> 200 \<and>
     0 \<le> building_age f \<and> building_age f \<le> 50"
  by (simp add: field_errors_def check_field_empty_iff)

lemma below_in_check_field:
  "v < lo \<Longrightarrow>
   \<lparr>loc = n, err_type = ''greater_than_equal'', bound = lo, input_value = Finite v\<rparr>
     \<in> set (check_field n lo hi v)"
  by (simp add: check_field_def check_ge_def)

lemma above_in_check_field:
  "hi < v \<Longrightarrow>
   \<lparr>loc = n, err_type = ''less_than_equal'', bound = hi, input_value = Finite v\<rparr>
     \<in> set (check_field n lo hi v)"
  by (simp add: check_field_def check_le_def)

lemma check_field_inputs_finite:
  "list_all (\<lambda>e. is_finite (input_value e)) (check_field n lo hi v)"
  by (simp add: check_field_def check_ge_def check_le_def)

lemma body_errors_inputs_finite:
  "json_total_surface b = Finite v \<Longrightarrow> list_all (\<lambda>e. is_finite (input_value e)) (body_errors b)"
  by (simp add: body_errors_def surface_errors_def check_field_inputs_finite)

lemma body_errors_empty_iff:
  "body_errors b = [] \<longleftrightarrow>
     1 \<le> json_rooms b \<and> json_rooms b \<le> 5 \<and> 1 \<le> json_bathrooms b \<and> json_bathrooms b \<le> 3 \<and>
     (\<exists>v. json_total_surface b = Finite v \<and> 30 \<le> v \<and> v \<le> 200) \<and>
     0 \<le> json_building_age b \<and> json_building_age b \<le> 50"
  by (cases "json_total_surface b")
    (simp_all add: body_errors_def surface_errors_def check_field_empty_iff)

lemma validate_Inr_iff:
  "validate b = Inr f \<longleftrightarrow>
     body_errors b = [] \<and>
     rooms f = json_rooms b \<and> bathrooms f = json_bathrooms b \<and>
     Finite (total_surface f) = json_total_surface b \<and>
     building_age f = json_building_age b \<and>
     floor_material f = json_floor_material b \<and> style f = json_style b"
proof (cases "json_total_surface b")
  case (Finite v)
  then show ?thesis
    by (cases "body_errors b") (auto simp: validate_def)
next
  case PosInf
  then show ?thesis
    by (auto simp: validate_def body_errors_empty_iff)
next
  case NegInf
  then show ?thesis
    by (auto simp: validate_def body_errors_empty_iff)
qed

lemma validate_rejects:
  "body_errors b \<noteq> [] \<Longrightarrow> validate b = Inl (body_errors b)"
  by (cases "json_total_surface b"; cases "body_errors b") (simp_all add: validate_def)

lemma post_predict_rejected:
  assumes "json_total_surface b = Finite v" and "body_errors b \<noteq> []"
  shows "post_predict a b = Inl (RequestValidationError (body_errors b))"
  using assms body_errors_inputs_finite [OF assms(1)]
  by (simp add: post_predict_def validate_rejects validation_response_def)

lemma post_predict_accepted:
  "validate b = Inr f \<Longrightarrow> post_predict a b = predict_rent a f"
  by (simp add: post_predict_def)

lemma infinite_surface_500:
  assumes "json_total_surface b = PosInf \<or> json_total_surface b = NegInf"
  shows "post_predict a b = Inl InternalServerError"
    and "http_status (post_predict a b) = 500"
proof -
  from assms have ne: "body_errors b \<noteq> []"
    by (auto simp: body_errors_empty_iff)
  from assms have "\<not> list_all (\<lambda>e. is_finite (input_value e)) (body_errors b)"
    by (auto simp: body_errors_def surface_errors_def)
  with ne show "post_predict a b = Inl InternalServerError"
    by (simp add: post_predict_def validate_rejects validation_response_def)
  then show "http_status (post_predict a b) = 500" by simp
qed

subsection \<open>Helper facts about label membership and encoding\<close>

lemma mem_np_contains: "l \<in> set arr \<Longrightarrow> np_contains arr l"
  by (simp add: np_contains_def)

lemma transform_known:
  "l \<in> set (classes e) \<Longrightarrow> transform e l = Inr (index_of (classes e) l)"
  by (simp add: transform_def)

lemma predict_rent_400_iff:
  "(\<exists>d. predict_rent a f = Inl (HTTPException 400 d)) \<longleftrightarrow>
     \<not> np_contains (classes (le_floor a)) (floor_material f)
     \<or> \<not> np_contains (classes (le_style a)) (style f)"
  by (auto simp: predict_rent_def predict_rent_body_def
      split: sum.splits prod.splits)

lemma failed_membership_400:
  assumes "\<not> np_contains (classes (le_floor a)) (floor_material f)
           \<or> \<not> np_contains (classes (le_style a)) (style f)"
  shows "predict_rent a f =
           Inl (HTTPException 400
             (if \<not> np_contains (classes (le_floor a)) (floor_material f)
              then (''Invalid floor_material. Valid values are: '', ListOfStr (classes (le_floor a)))
              else (''Invalid style. Valid values are: '', ListOfStr (classes (le_style a)))))"
  using assms by (auto simp: predict_rent_def predict_rent_body_def)

subsection \<open>Unknown categorical labels\<close>

text \<open>
  C1. The claim: a request whose numeric fields are within bounds and whose
  \<open>floor_material\<close> or \<open>style\<close> is not a class of the corresponding encoder is answered
  with status 400 and the encoder's class list, never with status 500. The handler answers
  so whenever its membership test fails (\<open>failed_membership_400\<close> above), but the test
  passes for a label that differs from a class only by trailing NUL characters: the label
  \<open>"Tile\u0000"\<close> is not a class, the 400 branch is skipped, \<open>transform\<close> raises, and
  the answer is status 500.
\<close>

theorem trailing_nul_label_500:
  "body_errors (demo_body\<lparr>json_floor_material := [CHR ''T'', CHR ''i'', CHR ''l'', CHR ''e'', CHR 0x00]\<rparr>) = []
   \<and> [CHR ''T'', CHR ''i'', CHR ''l'', CHR ''e'', CHR 0x00] \<notin> set (classes (le_floor demo_artifacts))
   \<and> post_predict demo_artifacts (demo_body\<lparr>json_floor_material := [CHR ''T'', CHR ''i'', CHR ''l'', CHR ''e'', CHR 0x00]\<rparr>) =
       Inl (HTTPException 500 (''Prediction error: '', Str ''y contains previously unseen labels''))
   \<and> http_status
        (post_predict demo_artifacts (demo_body\<lparr>json_floor_material := [CHR ''T'', CHR ''i'', CHR ''l'', CHR ''e'', CHR 0x00]\<rparr>))
       = 500"
proof -
  have e: "body_errors (demo_body\<lparr>json_floor_material := [CHR ''T'', CHR ''i'', CHR ''l'', CHR ''e'', CHR 0x00]\<rparr>) = []"
    by (simp add: body_errors_empty_iff demo_body_def)
  have v: "validate (demo_body\<lparr>json_floor_material := [CHR ''T'', CHR ''i'', CHR ''l'', CHR ''e'', CHR 0x00]\<rparr>) =
      Inr (demo_features\<lparr>floor_material := [CHR ''T'', CHR ''i'', CHR ''l'', CHR ''e'', CHR 0x00]\<rparr>)"
    unfolding validate_Inr_iff e by (simp add: demo_body_def demo_features_def)
  have m: "np_contains (classes (le_floor demo_artifacts)) ([CHR ''T'', CHR ''i'', CHR ''l'', CHR ''e'', CHR 0x00])"
    "np_contains (classes (le_style demo_artifacts)) ''Modern''"
    by (simp_all add: np_contains_def rstrip_nul_def demo_artifacts_def)
  have n: "[CHR ''T'', CHR ''i'', CHR ''l'', CHR ''e'', CHR 0x00] \<notin> set (classes (le_floor demo_artifacts))"
    by (simp add: demo_artifacts_def)
  have p: "post_predict demo_artifacts (demo_body\<lparr>json_floor_material := [CHR ''T'', CHR ''i'', CHR ''l'', CHR ''e'', CHR 0x00]\<rparr>) =
       Inl (HTTPException 500 (''Prediction error: '', Str ''y contains previously unseen labels''))"
    unfolding post_predict_accepted [OF v] using m n
    by (simp add: predict_rent_def predict_rent_body_def transform_def demo_features_def)
  from e n p show ?thesis by simp
qed

subsection \<open>Numeric bounds\<close>

text \<open>
  C3, as the claim states it, fails: a request with \<open>rooms = 6\<close> does not construct an
  \<open>ApartmentFeatures\<close>, the handler (the only place that raises status 400) is never
  called, and the framework answers the construction failure with status 422.
\<close>

theorem numeric_bound_status_counterexample:
  "post_predict demo_artifacts (demo_body\<lparr>json_rooms := 6\<rparr>) =
     Inl (RequestValidationError
           [\<lparr>loc = ''rooms'', err_type = ''less_than_equal'', bound = 5, input_value = Finite 6\<rparr>])
   \<and> http_status (post_predict demo_artifacts (demo_body\<lparr>json_rooms := 6\<rparr>)) \<noteq> 400"
  by (simp add: post_predict_def validate_def validation_response_def body_errors_def
      surface_errors_def check_field_def check_ge_def check_le_def demo_body_def)

text \<open>
  C3, amended. A request whose numbers are finite and one of whose numeric fields is
  outside its bound (\<open>rooms\<close> outside 1-5, \<open>bathrooms\<close> outside 1-3, \<open>total_surface\<close>
  outside 30-200, \<open>building_age\<close> outside 0-50) is rejected at request construction: the
  answer is the framework's validation error, a client error of status 422, it is the same
  whatever the loaded artifacts are (neither the handler nor the model runs), and its
  error list names every violated field with the violated bound.
\<close>

theorem numeric_bound_rejected_by_framework:
  assumes "json_total_surface b = Finite v"
    and "json_rooms b < 1 \<or> 5 < json_rooms b \<or> json_bathrooms b < 1 \<or> 3 < json_bathrooms b \<or>
         v < 30 \<or> 200 < v \<or> json_building_age b < 0 \<or> 50 < json_building_age b"
  shows "post_predict a b = Inl (RequestValidationError (body_errors b))
       \<and> post_predict a b = post_predict a' b
       \<and> http_status (post_predict a b) = 422
       \<and> body_errors b \<noteq> []
       \<and> (json_rooms b < 1 \<longrightarrow>
            \<lparr>loc = ''rooms'', err_type = ''greater_than_equal'', bound = 1,
             input_value = Finite (real_of_int (json_rooms b))\<rparr> \<in> set (body_errors b))
       \<and> (5 < json_rooms b \<longrightarrow>
            \<lparr>loc = ''rooms'', err_type = ''less_than_equal'', bound = 5,
             input_value = Finite (real_of_int (json_rooms b))\<rparr> \<in> set (body_errors b))
       \<and> (json_bathrooms b < 1 \<longrightarrow>
            \<lparr>loc = ''bathrooms'', err_type = ''greater_than_equal'', bound = 1,
             input_value = Finite (real_of_int (json_bathrooms b))\<rparr> \<in> set (body_errors b))
       \<and> (3 < json_bathrooms b \<longrightarrow>
            \<lparr>loc = ''bathrooms'', err_type = ''less_than_equal'', bound = 3,
             input_value = Finite (real_of_int (json_bathrooms b))\<rparr> \<in> set (body_errors b))
       \<and> (v < 30 \<longrightarrow>
            \<lparr>loc = ''total_surface'', err_type = ''greater_than_equal'', bound = 30,
             input_value = Finite v\<rparr> \<in> set (body_errors b))
       \<and> (200 < v \<longrightarrow>
            \<lparr>loc = ''total_surface'', err_type = ''less_than_equal'', bound = 200,
             input_value = Finite v\<rparr> \<in> set (body_errors b))
       \<and> (json_building_age b < 0 \<longrightarrow>
            \<lparr>loc = ''building_age'', err_type = ''greater_than_equal'', bound = 0,
             input_value = Finite (real_of_int (json_building_age b))\<rparr> \<in> set (body_errors b))
       \<and> (50 < json_building_age b \<longrightarrow>
            \<lparr>loc = ''building_age'', err_type = ''less_than_equal'', bound = 50,
             input_value = Finite (real_of_int (json_building_age b))\<rparr> \<in> set (body_errors b))"
proof -
  from assms have ne: "body_errors b \<noteq> []"
    unfolding body_errors_empty_iff by auto
  have names:
    "json_rooms b < 1 \<longrightarrow>
       \<lparr>loc = ''rooms'', err_type = ''greater_than_equal'', bound = 1,
        input_value = Finite (real_of_int (json_rooms b))\<rparr> \<in> set (body_errors b)"
    "5 < json_rooms b \<longrightarrow>
       \<lparr>loc = ''rooms'', err_type = ''less_than_equal'', bound = 5,
        input_value = Finite (real_of_int (json_rooms b))\<rparr> \<in> set (body_errors b)"
    "json_bathrooms b < 1 \<longrightarrow>
       \<lparr>loc = ''bathrooms'', err_type = ''greater_than_equal'', bound = 1,
        input_value = Finite (real_of_int (json_bathrooms b))\<rparr> \<in> set (body_errors b)"
    "3 < json_bathrooms b \<longrightarrow>
       \<lparr>loc = ''bathrooms'', err_type = ''less_than_equal'', bound = 3,
        input_value = Finite (real_of_int (json_bathrooms b))\<rparr> \<in> set (body_errors b)"
    "v < 30 \<longrightarrow>
       \<lparr>loc = ''total_surface'', err_type = ''greater_than_equal'', bound = 30,
        input_value = Finite v\<rparr> \<in> set (body_errors b)"
    "200 < v \<longrightarrow>
       \<lparr>loc = ''total_surface'', err_type = ''less_than_equal'', bound = 200,
        input_value = Finite v\<rparr> \<in> set (body_errors b)"
    "json_building_age b < 0 \<longrightarrow>
       \<lparr>loc = ''building_age'', err_type = ''greater_than_equal'', bound = 0,
        input_value = Finite (real_of_int (json_building_age b))\<rparr> \<in> set (body_errors b)"
    "50 < json_building_age b \<longrightarrow>
       \<lparr>loc = ''building_age'', err_type = ''less_than_equal'', bound = 50,
        input_value = Finite (real_of_int (json_building_age b))\<rparr> \<in> set (body_errors b)"
    using below_in_check_field [of "real_of_int (json_rooms b)" 1 "''rooms''" 5]
      above_in_check_field [of 5 "real_of_int (json_rooms b)" "''rooms''" 1]
      below_in_check_field [of "real_of_int (json_bathrooms b)" 1 "''bathrooms''" 3]
      above_in_check_field [of 3 "real_of_int (json_bathrooms b)" "''bathrooms''" 1]
      below_in_check_field [of v 30 "''total_surface''" 200]
      above_in_check_field [of 200 v "''total_surface''" 30]
      below_in_check_field [of "real_of_int (json_building_age b)" 0 "''building_age''" 50]
      above_in_check_field [of 50 "real_of_int (json_building_age b)" "''building_age''" 0]
    by (simp_all add: body_errors_def surface_errors_def assms(1))
  have r: "post_predict x b = Inl (RequestValidationError (body_errors b))" for x
    by (rule post_predict_rejected [OF assms(1) ne])
  from ne names show ?thesis
    by (simp add: r)
qed

text \<open>The theorem at \<open>rooms = 6\<close> and at \<open>total_surface = 20\<close>.\<close>

theorem numeric_bound_rejected_by_framework_witness:
  "json_total_surface (demo_body\<lparr>json_rooms := 6\<rparr>) = Finite 80
   \<and> 5 < json_rooms (demo_body\<lparr>json_rooms := 6\<rparr>)
   \<and> post_predict demo_artifacts (demo_body\<lparr>json_rooms := 6\<rparr>) =
       Inl (RequestValidationError (body_errors (demo_body\<lparr>json_rooms := 6\<rparr>)))
   \<and> post_predict demo_artifacts (demo_body\<lparr>json_rooms := 6\<rparr>) =
       post_predict other_artifacts (demo_body\<lparr>json_rooms := 6\<rparr>)
   \<and> http_status (post_predict demo_artifacts (demo_body\<lparr>json_rooms := 6\<rparr>)) = 422
   \<and> \<lparr>loc = ''rooms'', err_type = ''less_than_equal'', bound = 5, input_value = Finite 6\<rparr>
        \<in> set (body_errors (demo_body\<lparr>json_rooms := 6\<rparr>))
   \<and> json_total_surface (demo_body\<lparr>json_total_surface := Finite 20\<rparr>) = Finite 20
   \<and> http_status (post_predict demo_artifacts (demo_body\<lparr>json_total_surface := Finite 20\<rparr>)) = 422
   \<and> \<lparr>loc = ''total_surface'', err_type = ''greater_than_equal'', bound = 30,
       input_value = Finite 20\<rparr>
        \<in> set (body_errors (demo_body\<lparr>json_total_surface := Finite 20\<rparr>))"
proof -
  have a: "json_total_surface (demo_body\<lparr>json_rooms := 6\<rparr>) = Finite 80"
    by (simp add: demo_body_def)
  have b: "5 < json_rooms (demo_body\<lparr>json_rooms := 6\<rparr>)" by simp
  have c: "json_total_surface (demo_body\<lparr>json_total_surface := Finite 20\<rparr>) = Finite 20"
    by simp
  have d: "(20::real) < 30" by simp
  have e: "real_of_int (json_rooms (demo_body\<lparr>json_rooms := 6\<rparr>)) = 6" by simp
  note t1 = numeric_bound_rejected_by_framework
        [of "demo_body\<lparr>json_rooms := 6\<rparr>" 80 demo_artifacts other_artifacts, OF a]
  note t2 = numeric_bound_rejected_by_framework
        [of "demo_body\<lparr>json_total_surface := Finite 20\<rparr>" 20 demo_artifacts other_artifacts, OF c]
  from t1 b have 1: "post_predict demo_artifacts (demo_body\<lparr>json_rooms := 6\<rparr>) =
       Inl (RequestValidationError (body_errors (demo_body\<lparr>json_rooms := 6\<rparr>)))"
    "post_predict demo_artifacts (demo_body\<lparr>json_rooms := 6\<rparr>) =
       post_predict other_artifacts (demo_body\<lparr>json_rooms := 6\<rparr>)"
    "http_status (post_predict demo_artifacts (demo_body\<lparr>json_rooms := 6\<rparr>)) = 422"
    "\<lparr>loc = ''rooms'', err_type = ''less_than_equal'', bound = 5,
      input_value = Finite (real_of_int (json_rooms (demo_body\<lparr>json_rooms := 6\<rparr>)))\<rparr>
        \<in> set (body_errors (demo_body\<lparr>json_rooms := 6\<rparr>))"
    by blast+
  from t2 d have 2:
    "http_status (post_predict demo_artifacts (demo_body\<lparr>json_total_surface := Finite 20\<rparr>)) = 422"
    "\<lparr>loc = ''total_surface'', err_type = ''greater_than_equal'', bound = 30,
       input_value = Finite 20\<rparr>
        \<in> set (body_errors (demo_body\<lparr>json_total_surface := Finite 20\<rparr>))"
    by blast+
  from 1(4) have 3: "\<lparr>loc = ''rooms'', err_type = ''less_than_equal'', bound = 5,
      input_value = Finite 6\<rparr> \<in> set (body_errors (demo_body\<lparr>json_rooms := 6\<rparr>))"
    unfolding e .
  from a b c 1(1,2,3) 2 3 show ?thesis by blast
qed

subsection \<open>Helper facts about rounding\<close>

lemma round_half_even_bounds: "\<lfloor>x\<rfloor> \<le> round_half_even x \<and> round_half_even x \<le> \<lfloor>x\<rfloor> + 1"
  by (simp add: round_half_even_def Let_def)

lemma round_half_even_mono:
  assumes "x \<le> y"
  shows "round_half_even x \<le> round_half_even y"
proof (cases "\<lfloor>x\<rfloor> = \<lfloor>y\<rfloor>")
  case True
  with assms show ?thesis
    by (simp add: round_half_even_def Let_def)
next
  case False
  with assms have "\<lfloor>x\<rfloor> < \<lfloor>y\<rfloor>"
    using floor_mono [of x y] by linarith
  then have "\<lfloor>x\<rfloor> + 1 \<le> \<lfloor>y\<rfloor>" by simp
  with round_half_even_bounds [of x] round_half_even_bounds [of y] show ?thesis
    by linarith
qed

lemma round2_mono: "x \<le> y \<Longrightarrow> round2 x \<le> round2 y"
  by (simp add: round2_def round_half_even_mono divide_right_mono)

subsection \<open>The successful response\<close>

text \<open>
  C4, as the claim states it, fails: the response does not always have
  \<open>confidence_interval.lower\<close> at most \<open>confidence_interval.upper\<close>. The service
  returns the wrapper's bounds as they come; with a wrapper that returns the bounds 10 and
  5 the response to the example feature vector has lower 10 and upper 5.
\<close>

theorem response_interval_disordered_counterexample:
  "post_predict disordered_artifacts demo_body =
     Inr \<lparr>predicted_rent = 7,
          confidence_interval = \<lparr>lower = 10, upper = 5\<rparr>,
          confidence_level = ''95%'', currency = ''USD'', features = demo_features\<rparr>
   \<and> \<not> lower (confidence_interval
         (projr (post_predict disordered_artifacts demo_body)))
       \<le> upper (confidence_interval
         (projr (post_predict disordered_artifacts demo_body)))"
proof -
  have e: "body_errors demo_body = []"
    by (simp add: body_errors_empty_iff demo_body_def)
  have v: "validate demo_body = Inr demo_features"
    unfolding validate_Inr_iff e by (simp add: demo_body_def demo_features_def)
  have m: "np_contains (classes (le_floor disordered_artifacts)) ''Hardwood''"
    "np_contains (classes (le_style disordered_artifacts)) ''Modern''"
    by (simp_all add: np_contains_def rstrip_nul_def disordered_artifacts_def)
  have r: "round2 7 = 7" "round2 10 = 10" "round2 5 = 5"
    by (simp_all add: round2_def round_half_even_def Let_def)
  have "post_predict disordered_artifacts demo_body =
     Inr \<lparr>predicted_rent = 7,
          confidence_interval = \<lparr>lower = 10, upper = 5\<rparr>,
          confidence_level = ''95%'', currency = ''USD'', features = demo_features\<rparr>"
    unfolding post_predict_accepted [OF v] using m
    by (simp add: predict_rent_def predict_rent_body_def transform_def demo_features_def r)
      (simp add: disordered_artifacts_def r)
  then show ?thesis by simp
qed

text \<open>
  C4, amended. For a valid feature vector (the body constructs an \<open>ApartmentFeatures\<close>
  with the body's six values, both labels are classes of the encoders) on whose encoded row
  the conformal wrapper returns the point estimate \<open>p\<close> and the bounds \<open>lo\<close>, \<open>hi\<close> at
  significance 0.05, the response of \<open>POST /predict\<close> is the object with
  \<open>predicted_rent\<close> = \<open>p\<close> rounded to two decimals, \<open>confidence_interval.lower\<close> and
  \<open>.upper\<close> = \<open>lo\<close> and \<open>hi\<close> rounded to two decimals, \<open>confidence_level\<close> = "95%",
  \<open>currency\<close> = "USD" and \<open>features\<close> = the validated input; the reported lower bound is
  at most the reported upper bound whenever the wrapper's bounds are so ordered.
\<close>

theorem predict_success_response:
  assumes "validate b = Inr f"
    and "floor_material f \<in> set (classes (le_floor a))"
    and "style f \<in> set (classes (le_style a))"
    and "conformal_model a
           [real_of_int (rooms f), real_of_int (bathrooms f), total_surface f,
            real_of_int (building_age f),
            real (index_of (classes (le_floor a)) (floor_material f)),
            real (index_of (classes (le_style a)) (style f))]
           (5 / 100) = Inr (p, lo, hi)"
  shows "post_predict a b =
           Inr \<lparr>predicted_rent = round2 p,
                confidence_interval = \<lparr>lower = round2 lo, upper = round2 hi\<rparr>,
                confidence_level = ''95%'',
                currency = ''USD'',
                features = f\<rparr>
         \<and> rooms f = json_rooms b \<and> bathrooms f = json_bathrooms b
         \<and> Finite (total_surface f) = json_total_surface b
         \<and> building_age f = json_building_age b
         \<and> floor_material f = json_floor_material b \<and> style f = json_style b
         \<and> (lo \<le> hi \<longrightarrow> round2 lo \<le> round2 hi)"
proof -
  from assms(4) have c: "conformal_model a
      (features_array f (index_of (classes (le_floor a)) (floor_material f))
                        (index_of (classes (le_style a)) (style f)))
      (5 / 100) = Inr (p, lo, hi)"
    by (simp add: features_array_def)
  have "predict_rent a f =
           Inr \<lparr>predicted_rent = round2 p,
                confidence_interval = \<lparr>lower = round2 lo, upper = round2 hi\<rparr>,
                confidence_level = ''95%'',
                currency = ''USD'',
                features = f\<rparr>"
    using assms(2,3) c
    by (simp add: predict_rent_def predict_rent_body_def transform_known mem_np_contains)
  moreover from assms(1) have "rooms f = json_rooms b \<and> bathrooms f = json_bathrooms b
         \<and> Finite (total_surface f) = json_total_surface b
         \<and> building_age f = json_building_age b
         \<and> floor_material f = json_floor_material b \<and> style f = json_style b"
    unfolding validate_Inr_iff by blast
  ultimately show ?thesis
    by (simp add: post_predict_accepted [OF assms(1)] round2_mono)
qed

text \<open>
  The theorem at the feature vector \<open>{rooms: 2, bathrooms: 1, total_surface: 80,
  building_age: 10, floor_material: "Hardwood", style: "Modern"}\<close>.
\<close>

theorem predict_success_response_witness:
  "validate demo_body = Inr demo_features
   \<and> floor_material demo_features \<in> set (classes (le_floor demo_artifacts))
   \<and> style demo_features \<in> set (classes (le_style demo_artifacts))
   \<and> conformal_model demo_artifacts [2, 1, 80, 10, 1, 3] (5 / 100) = Inr (2500.004, 2100.125, 2900.135)
   \<and> (2100.125 :: real) \<le> 2900.135
   \<and> post_predict demo_artifacts demo_body =
       Inr \<lparr>predicted_rent = 2500,
            confidence_interval = \<lparr>lower = 2100.12, upper = 2900.14\<rparr>,
            confidence_level = ''95%'',
            currency = ''USD'',
            features = demo_features\<rparr>"
proof -
  have e: "body_errors demo_body = []"
    by (simp add: body_errors_empty_iff demo_body_def)
  have a: "validate demo_body = Inr demo_features"
    unfolding validate_Inr_iff e by (simp add: demo_body_def demo_features_def)
  have b: "floor_material demo_features \<in> set (classes (le_floor demo_artifacts))"
    by (simp add: demo_artifacts_def demo_features_def)
  have c: "style demo_features \<in> set (classes (le_style demo_artifacts))"
    by (simp add: demo_artifacts_def demo_features_def)
  have d: "conformal_model demo_artifacts
             [real_of_int (rooms demo_features), real_of_int (bathrooms demo_features),
              total_surface demo_features, real_of_int (building_age demo_features),
              real (index_of (classes (le_floor demo_artifacts)) (floor_material demo_features)),
              real (index_of (classes (le_style demo_artifacts)) (style demo_features))]
             (5 / 100) = Inr (2500.004, 2100.125, 2900.135)"
    by (simp add: demo_artifacts_def)
  have d': "conformal_model demo_artifacts [2, 1, 80, 10, 1, 3] (5 / 100)
      = Inr (2500.004, 2100.125, 2900.135)"
    by (simp add: demo_artifacts_def)
  have r: "round2 2500.004 = 2500" "round2 2100.125 = 2100.12" "round2 2900.135 = 2900.14"
    by (simp_all add: round2_def round_half_even_def Let_def)
  from predict_success_response [OF a b c d]
  have "post_predict demo_artifacts demo_body =
       Inr \<lparr>predicted_rent = 2500,
            confidence_interval = \<lparr>lower = 2100.12, upper = 2900.14\<rparr>,
            confidence_level = ''95%'',
            currency = ''USD'',
            features = demo_features\<rparr>"
    unfolding r by blast
  with a b c d' show ?thesis by simp
qed

subsection \<open>\<open>GET /info\<close> against \<open>POST /predict\<close>\<close>

text \<open>
  C2, as the claim states it, fails in its last part: the numeric bounds of \<open>/info\<close> are
  not sourced from the loaded artifacts. Two artifact sets that differ in every component
  give the same numeric bounds, while the label lists follow the encoders.
\<close>

theorem info_bounds_hard_coded_counterexample:
  "info_bounds (model_info demo_artifacts) = info_bounds (model_info other_artifacts)
   \<and> floor_materials (model_info demo_artifacts) \<noteq> floor_materials (model_info other_artifacts)
   \<and> styles (model_info demo_artifacts) \<noteq> styles (model_info other_artifacts)"
  by (simp add: model_info_def info_bounds_def demo_artifacts_def other_artifacts_def)

text \<open>
  C2, amended. The \<open>floor_materials\<close> and \<open>styles\<close> lists of \<open>/info\<close> are the class
  lists of the loaded encoders, the same arrays \<open>/predict\<close> tests the labels against: a
  request that constructs is answered with status 400 exactly when one of its labels fails
  the membership test against the corresponding \<open>/info\<close> list, and never when both
  labels are in the lists. The numeric bounds of \<open>/info\<close> are the literals 1-5, 1-3,
  30-200 and 0-50; a body constructs exactly when its numbers are within them; and they do
  not depend on the loaded artifacts.
\<close>

theorem info_agrees_with_predict:
  "floor_materials (model_info a) = classes (le_floor a)
   \<and> styles (model_info a) = classes (le_style a)
   \<and> (validate b = Inr f \<longrightarrow>
        ((\<exists>d. post_predict a b = Inl (HTTPException 400 d)) \<longleftrightarrow>
          \<not> np_contains (floor_materials (model_info a)) (floor_material f)
          \<or> \<not> np_contains (styles (model_info a)) (style f)))
   \<and> (validate b = Inr f
        \<and> floor_material f \<in> set (floor_materials (model_info a))
        \<and> style f \<in> set (styles (model_info a)) \<longrightarrow>
        (\<forall>d. post_predict a b \<noteq> Inl (HTTPException 400 d)))
   \<and> info_bounds (model_info a) = [(1, 5), (1, 3), (30, 200), (0, 50)]
   \<and> ((\<exists>f'. validate b = Inr f') \<longleftrightarrow>
        in_bounds (info_rooms (model_info a)) (real_of_int (json_rooms b))
        \<and> in_bounds (info_bathrooms (model_info a)) (real_of_int (json_bathrooms b))
        \<and> (\<exists>v. json_total_surface b = Finite v \<and> in_bounds (info_total_surface (model_info a)) v)
        \<and> in_bounds (info_building_age (model_info a)) (real_of_int (json_building_age b)))
   \<and> info_bounds (model_info a) = info_bounds (model_info a')"
proof -
  have 1: "validate b = Inr f \<longrightarrow>
        ((\<exists>d. post_predict a b = Inl (HTTPException 400 d)) \<longleftrightarrow>
          \<not> np_contains (floor_materials (model_info a)) (floor_material f)
          \<or> \<not> np_contains (styles (model_info a)) (style f))"
    using predict_rent_400_iff [of a f] by (simp add: post_predict_def model_info_def)
  have 2: "validate b = Inr f
        \<and> floor_material f \<in> set (floor_materials (model_info a))
        \<and> style f \<in> set (styles (model_info a)) \<longrightarrow>
        (\<forall>d. post_predict a b \<noteq> Inl (HTTPException 400 d))"
    using predict_rent_400_iff [of a f] mem_np_contains
    by (auto simp: post_predict_def model_info_def)
  have "(\<exists>f'. validate b = Inr f') \<longleftrightarrow> body_errors b = []"
  proof
    assume "\<exists>f'. validate b = Inr f'"
    then show "body_errors b = []" unfolding validate_Inr_iff by blast
  next
    assume e: "body_errors b = []"
    then obtain v where "json_total_surface b = Finite v"
      unfolding body_errors_empty_iff by blast
    with e show "\<exists>f'. validate b = Inr f'"
      by (simp add: validate_def)
  qed
  then have 3: "(\<exists>f'. validate b = Inr f') \<longleftrightarrow>
        in_bounds (info_rooms (model_info a)) (real_of_int (json_rooms b))
        \<and> in_bounds (info_bathrooms (model_info a)) (real_of_int (json_bathrooms b))
        \<and> (\<exists>v. json_total_surface b = Finite v \<and> in_bounds (info_total_surface (model_info a)) v)
        \<and> in_bounds (info_building_age (model_info a)) (real_of_int (json_building_age b))"
    by (simp add: body_errors_empty_iff in_bounds_def model_info_def)
  have 4: "floor_materials (model_info a) = classes (le_floor a)"
    "styles (model_info a) = classes (le_style a)"
    "info_bounds (model_info a) = [(1, 5), (1, 3), (30, 200), (0, 50)]"
    "info_bounds (model_info a) = info_bounds (model_info a')"
    by (simp_all add: model_info_def info_bounds_def)
  from 1 2 3 4 show ?thesis by blast
qed

text \<open>The theorem at \<open>floor_material = "Marble"\<close> and at the example feature vector.\<close>

theorem info_agrees_with_predict_witness:
  "validate (demo_body\<lparr>json_floor_material := ''Marble''\<rparr>)
     = Inr (demo_features\<lparr>floor_material := ''Marble''\<rparr>)
   \<and> \<not> np_contains (floor_materials (model_info demo_artifacts)) ''Marble''
   \<and> (\<exists>d. post_predict demo_artifacts (demo_body\<lparr>json_floor_material := ''Marble''\<rparr>) =
             Inl (HTTPException 400 d))
   \<and> validate demo_body = Inr demo_features
   \<and> floor_material demo_features \<in> set (floor_materials (model_info demo_artifacts))
   \<and> style demo_features \<in> set (styles (model_info demo_artifacts))
   \<and> (\<forall>d. post_predict demo_artifacts demo_body \<noteq> Inl (HTTPException 400 d))
   \<and> floor_materials (model_info demo_artifacts) =
       [''Carpet'', ''Hardwood'', ''Laminate'', ''Tile'', ''Vinyl'']
   \<and> info_bounds (model_info demo_artifacts) = [(1, 5), (1, 3), (30, 200), (0, 50)]
   \<and> info_bounds (model_info demo_artifacts) = info_bounds (model_info other_artifacts)
   \<and> in_bounds (info_building_age (model_info demo_artifacts)) 10"
proof -
  have e: "body_errors (demo_body\<lparr>json_floor_material := ''Marble''\<rparr>) = []"
    "body_errors demo_body = []"
    by (simp_all add: body_errors_empty_iff demo_body_def)
  have v: "validate (demo_body\<lparr>json_floor_material := ''Marble''\<rparr>)
     = Inr (demo_features\<lparr>floor_material := ''Marble''\<rparr>)"
    unfolding validate_Inr_iff e by (simp add: demo_body_def demo_features_def)
  have v': "validate demo_body = Inr demo_features"
    unfolding validate_Inr_iff e by (simp add: demo_body_def demo_features_def)
  have c: "classes (le_floor demo_artifacts) =
             [''Carpet'', ''Hardwood'', ''Laminate'', ''Tile'', ''Vinyl'']"
    by (simp add: demo_artifacts_def)
  have n: "\<not> np_contains (classes (le_floor demo_artifacts))
              (floor_material (demo_features\<lparr>floor_material := ''Marble''\<rparr>))"
    by (simp add: np_contains_def rstrip_nul_def demo_artifacts_def)
  have g: "real_of_int (json_building_age demo_body) = 10"
    by (simp add: demo_body_def)
  note t = info_agrees_with_predict
      [of demo_artifacts "demo_body\<lparr>json_floor_material := ''Marble''\<rparr>"
          "demo_features\<lparr>floor_material := ''Marble''\<rparr>" other_artifacts]
  note t' = info_agrees_with_predict [of demo_artifacts demo_body demo_features other_artifacts]
  from t have l: "floor_materials (model_info demo_artifacts) = classes (le_floor demo_artifacts)"
    "styles (model_info demo_artifacts) = classes (le_style demo_artifacts)"
    by blast+
  from t v n l have 1: "\<exists>d. post_predict demo_artifacts (demo_body\<lparr>json_floor_material := ''Marble''\<rparr>) =
             Inl (HTTPException 400 d)"
    by simp
  from n l have 2: "\<not> np_contains (floor_materials (model_info demo_artifacts)) ''Marble''"
    by simp
  have 3: "floor_material demo_features \<in> set (floor_materials (model_info demo_artifacts))"
    "style demo_features \<in> set (styles (model_info demo_artifacts))"
    unfolding l by (simp_all add: demo_artifacts_def demo_features_def)
  from t' v' 3 have 4: "\<forall>d. post_predict demo_artifacts demo_body \<noteq> Inl (HTTPException 400 d)"
    by blast
  from t' v' have "in_bounds (info_building_age (model_info demo_artifacts))
      (real_of_int (json_building_age demo_body))"
    by blast
  then have 5: "in_bounds (info_building_age (model_info demo_artifacts)) 10"
    unfolding g .
  from t c have 6: "floor_materials (model_info demo_artifacts) =
       [''Carpet'', ''Hardwood'', ''Laminate'', ''Tile'', ''Vinyl'']"
    by simp
  from t have 7: "info_bounds (model_info demo_artifacts) = [(1, 5), (1, 3), (30, 200), (0, 50)]"
    "info_bounds (model_info demo_artifacts) = info_bounds (model_info other_artifacts)"
    by blast+
  from v v' 1 2 3 4 5 6 7 show ?thesis by blast
qed

subsection \<open>Label encoders\<close>

lemma index_of_nth: "l \<in> set xs \<Longrightarrow> index_of xs l < length xs \<and> xs ! index_of xs l = l"
  by (induction xs) auto

lemma index_of_inj: "l \<in> set xs \<Longrightarrow> index_of xs l = index_of xs l' \<Longrightarrow> l' \<in> set xs \<Longrightarrow> l = l'"
  by (metis index_of_nth)

lemma set_classes_fit: "set (classes (fit ys)) = set ys"
  by (simp add: fit_def)

text \<open>
  C8. For the two encoders the trainer fits (floor material and style), every label of the
  encoder's class set is encoded to a code whose inverse lookup is the label again.
\<close>

theorem encoder_roundtrip:
  assumes "(le_f, le_s) = fit_encoders df"
  shows "(\<forall>l \<in> set (classes le_f). \<exists>c. transform le_f l = Inr c \<and> inverse_transform le_f c = Inr l)
       \<and> (\<forall>l \<in> set (classes le_s). \<exists>c. transform le_s l = Inr c \<and> inverse_transform le_s c = Inr l)"
  by (simp add: transform_def inverse_transform_def index_of_nth)

text \<open>The theorem on the encoders fitted on the three-row data set.\<close>

theorem encoder_roundtrip_witness:
  "fit_encoders demo_df =
     (\<lparr>classes = [''Carpet'', ''Tile'']\<rparr>, \<lparr>classes = [''Industrial'', ''Modern'']\<rparr>)
   \<and> transform (fst (fit_encoders demo_df)) ''Tile'' = Inr 1
   \<and> inverse_transform (fst (fit_encoders demo_df)) 1 = Inr ''Tile''
   \<and> transform (snd (fit_encoders demo_df)) ''Industrial'' = Inr 0
   \<and> inverse_transform (snd (fit_encoders demo_df)) 0 = Inr ''Industrial''"
proof -
  have e: "fit_encoders demo_df =
     (\<lparr>classes = [''Carpet'', ''Tile'']\<rparr>, \<lparr>classes = [''Industrial'', ''Modern'']\<rparr>)"
    by (simp add: fit_encoders_def fit_def demo_df_def)
  have t: "transform (fst (fit_encoders demo_df)) ''Tile'' = Inr 1"
    "transform (snd (fit_encoders demo_df)) ''Industrial'' = Inr 0"
    by (simp_all add: e transform_def)
  have m: "''Tile'' \<in> set (classes (fst (fit_encoders demo_df)))"
    "''Industrial'' \<in> set (classes (snd (fit_encoders demo_df)))"
    by (simp_all add: e)
  note r = encoder_roundtrip
      [of "fst (fit_encoders demo_df)" "snd (fit_encoders demo_df)" demo_df, simplified]
  from r m(1) t(1) have "inverse_transform (fst (fit_encoders demo_df)) 1 = Inr ''Tile''"
    by fastforce
  moreover from r m(2) t(2) have "inverse_transform (snd (fit_encoders demo_df)) 0 = Inr ''Industrial''"
    by fastforce
  ultimately show ?thesis
    using e t by blast
qed

subsection \<open>Interactive form\<close>

text \<open>
  C9. The form shows the surface warning exactly when \<open>total_surface < 15 * rooms\<close> and
  the bathrooms warning exactly when \<open>bathrooms > rooms\<close>; the warnings do not block
  submission: whenever the button is pressed the predict sequence runs, and it is skipped
  exactly when the button is not pressed.
\<close>

theorem form_warnings:
  "(surface_warning \<in> set (warnings (form_run models w calculate))
      \<longleftrightarrow> total_surface w < 15 * real_of_int (rooms w))
   \<and> (bathrooms_warning \<in> set (warnings (form_run models w calculate))
      \<longleftrightarrow> bathrooms w > rooms w)
   \<and> prediction (form_run models w True) = Some (form_predict models w)
   \<and> (prediction (form_run models w calculate) = None \<longleftrightarrow> \<not> calculate)"
  by (simp add: form_run_def input_validation_def surface_warning_def bathrooms_warning_def mult.commute)

text \<open>
  The theorem on a run that shows the surface warning, on one that shows the bathrooms
  warning, and on one that shows neither.
\<close>

theorem form_warnings_witness:
  "warnings (form_run demo_artifacts (demo_features\<lparr>rooms := 3, total_surface := 30\<rparr>) True)
     = [surface_warning]
   \<and> prediction (form_run demo_artifacts (demo_features\<lparr>rooms := 3, total_surface := 30\<rparr>) True)
     = Some (Inr (2500.004, 2100.125, 2900.135))
   \<and> warnings (form_run demo_artifacts (demo_features\<lparr>rooms := 1, bathrooms := 2\<rparr>) True)
     = [bathrooms_warning]
   \<and> prediction (form_run demo_artifacts (demo_features\<lparr>rooms := 1, bathrooms := 2\<rparr>) True)
     = Some (Inr (2500.004, 2100.125, 2900.135))
   \<and> warnings (form_run demo_artifacts demo_features True) = []"
proof -
  have p: "form_predict demo_artifacts (demo_features\<lparr>rooms := 3, total_surface := 30\<rparr>)
             = Inr (2500.004, 2100.125, 2900.135)"
    "form_predict demo_artifacts (demo_features\<lparr>rooms := 1, bathrooms := 2\<rparr>)
             = Inr (2500.004, 2100.125, 2900.135)"
    by (simp_all add: form_predict_def input_data_def transform_def select_columns_def
        features_app_def demo_artifacts_def demo_features_def)
  have w: "warnings (form_run demo_artifacts (demo_features\<lparr>rooms := 3, total_surface := 30\<rparr>) True)
     = [surface_warning]"
    "warnings (form_run demo_artifacts (demo_features\<lparr>rooms := 1, bathrooms := 2\<rparr>) True)
     = [bathrooms_warning]"
    "warnings (form_run demo_artifacts demo_features True) = []"
    by (simp_all add: form_run_def input_validation_def demo_features_def)
  from form_warnings [of demo_artifacts "demo_features\<lparr>rooms := 3, total_surface := 30\<rparr>" True]
    form_warnings [of demo_artifacts "demo_features\<lparr>rooms := 1, bathrooms := 2\<rparr>" True]
  show ?thesis using p w by simp
qed

text \<open>
  C7. For the same six input values with known labels, the form and the service build the
  same encoded row: the columns in the training order (\<open>rooms\<close>, \<open>bathrooms\<close>,
  \<open>total_surface\<close>, \<open>building_age\<close>, \<open>floor_material_encoded\<close>, \<open>style_encoded\<close>),
  the two labels encoded by the loaded encoders. Both call the conformal wrapper on that
  row at significance 0.05, so both results are read from the same call: the form shows
  its point estimate and bounds, the service returns them rounded to two decimals.
\<close>

theorem form_and_service_same_prediction:
  assumes "floor_material f \<in> set (classes (le_floor a))"
    and "style f \<in> set (classes (le_style a))"
    and "x = features_array f (index_of (classes (le_floor a)) (floor_material f))
                              (index_of (classes (le_style a)) (style f))"
  shows "features_app = features_train
       \<and> (\<exists>df. input_data a f = Inr df \<and> map fst df = features_train
               \<and> select_columns df features_app = Inr x)
       \<and> form_predict a f =
           (case conformal_model a x (5 / 100) of
              Inl e \<Rightarrow> Inl (PredictionFailed e) | Inr r \<Rightarrow> Inr r)
       \<and> predict_rent a f =
           (case conformal_model a x (5 / 100) of
              Inl e \<Rightarrow> Inl (HTTPException 500 (''Prediction error: '', Str e))
            | Inr (p, lo, hi) \<Rightarrow>
                Inr \<lparr>predicted_rent = round2 p,
                     confidence_interval = \<lparr>lower = round2 lo, upper = round2 hi\<rparr>,
                     confidence_level = ''95%'', currency = ''USD'', features = f\<rparr>)"
proof -
  have sel: "select_columns
     [(''rooms'', real_of_int (rooms f)), (''bathrooms'', real_of_int (bathrooms f)),
      (''total_surface'', total_surface f), (''building_age'', real_of_int (building_age f)),
      (''floor_material_encoded'', real (index_of (classes (le_floor a)) (floor_material f))),
      (''style_encoded'', real (index_of (classes (le_style a)) (style f)))] features_app = Inr x"
    by (simp add: select_columns_def features_app_def features_array_def assms(3))
  have inp: "input_data a f = Inr
     [(''rooms'', real_of_int (rooms f)), (''bathrooms'', real_of_int (bathrooms f)),
      (''total_surface'', total_surface f), (''building_age'', real_of_int (building_age f)),
      (''floor_material_encoded'', real (index_of (classes (le_floor a)) (floor_material f))),
      (''style_encoded'', real (index_of (classes (le_style a)) (style f)))]"
    using assms(1,2) by (simp add: input_data_def transform_known)
  have 1: "features_app = features_train"
    by (simp add: features_app_def features_train_def)
  have 2: "\<exists>df. input_data a f = Inr df \<and> map fst df = features_train
               \<and> select_columns df features_app = Inr x"
    using sel inp by (simp add: features_train_def)
  have 3: "form_predict a f =
           (case conformal_model a x (5 / 100) of
              Inl e \<Rightarrow> Inl (PredictionFailed e) | Inr r \<Rightarrow> Inr r)"
    using sel inp by (simp add: form_predict_def)
  have 4: "predict_rent a f =
           (case conformal_model a x (5 / 100) of
              Inl e \<Rightarrow> Inl (HTTPException 500 (''Prediction error: '', Str e))
            | Inr (p, lo, hi) \<Rightarrow>
                Inr \<lparr>predicted_rent = round2 p,
                     confidence_interval = \<lparr>lower = round2 lo, upper = round2 hi\<rparr>,
                     confidence_level = ''95%'', currency = ''USD'', features = f\<rparr>)"
    using assms
    by (simp add: predict_rent_def predict_rent_body_def transform_known mem_np_contains
        split: sum.splits prod.splits)
  from 1 2 3 4 show ?thesis by blast
qed

text \<open>The theorem at the example feature vector.\<close>

theorem form_and_service_same_prediction_witness:
  "floor_material demo_features \<in> set (classes (le_floor demo_artifacts))
   \<and> style demo_features \<in> set (classes (le_style demo_artifacts))
   \<and> features_array demo_features 1 3 = [2, 1, 80, 10, 1, 3]
   \<and> form_predict demo_artifacts demo_features = Inr (2500.004, 2100.125, 2900.135)
   \<and> predict_rent demo_artifacts demo_features =
       Inr \<lparr>predicted_rent = round2 2500.004,
            confidence_interval = \<lparr>lower = round2 2100.125, upper = round2 2900.135\<rparr>,
            confidence_level = ''95%'', currency = ''USD'', features = demo_features\<rparr>"
proof -
  have a: "floor_material demo_features \<in> set (classes (le_floor demo_artifacts))"
    by (simp add: demo_artifacts_def demo_features_def)
  have b: "style demo_features \<in> set (classes (le_style demo_artifacts))"
    by (simp add: demo_artifacts_def demo_features_def)
  have c: "[2, 1, 80, 10, 1, 3] =
     features_array demo_features
       (index_of (classes (le_floor demo_artifacts)) (floor_material demo_features))
       (index_of (classes (le_style demo_artifacts)) (style demo_features))"
    by (simp add: features_array_def demo_artifacts_def demo_features_def)
  have d: "features_array demo_features 1 3 = [2, 1, 80, 10, 1, 3]"
    by (simp add: features_array_def demo_features_def)
  have e: "conformal_model demo_artifacts [2, 1, 80, 10, 1, 3] (5 / 100)
             = Inr (2500.004, 2100.125, 2900.135)"
    by (simp add: demo_artifacts_def)
  from form_and_service_same_prediction [OF a b c] e
  have "form_predict demo_artifacts demo_features = Inr (2500.004, 2100.125, 2900.135)"
    and "predict_rent demo_artifacts demo_features =
       Inr \<lparr>predicted_rent = round2 2500.004,
            confidence_interval = \<lparr>lower = round2 2100.125, upper = round2 2900.135\<rparr>,
            confidence_level = ''95%'', currency = ''USD'', features = demo_features\<rparr>"
    by simp_all
  with a b d show ?thesis by blast
qed

subsection \<open>Data generator\<close>

lemma advance_Suc: "advance 1 (advance n s) = advance (Suc n) s"
  by (simp add: advance_def)

lemma rent_loop:
  "foldl (rent_step data) (acc, s) [0..<n] =
     (acc @ map (\<lambda>i. max (base_rent data i (0.8 + (1.2 - 0.8) * random_sample (s i))) 500) [0..<n],
      advance n s)"
proof (induction n)
  case 0
  show ?case by (simp add: advance_def)
next
  case (Suc n)
  have "rent_step data (rs, advance n s) n =
      (rs @ [max (base_rent data n (0.8 + (1.2 - 0.8) * random_sample (s n))) 500], advance (Suc n) s)"
    for rs
    unfolding rent_step_def uniform1_def
    by (simp add: advance_Suc) (simp add: advance_def)
  with Suc show ?case by simp
qed


lemma random_sample_range: "0 \<le> random_sample k \<and> random_sample k < 1"
proof -
  have "k mod 2 ^ 53 < (2::nat) ^ 53" by simp
  then have "real (k mod 2 ^ 53) < real (2 ^ 53)"
    by (rule of_nat_less_iff [THEN iffD2])
  then show ?thesis by (simp add: random_sample_def)
qed

lemma generate_rows:
  assumes "0 \<le> n_samples" and "n = nat n_samples"
  shows "generate_apartment_data n_samples s = Inr (map (generated_row s n) [0..<n])"
proof -
  have len: "length floor_materials_list = 5" "length styles_list = 5"
    by (simp_all add: floor_materials_list_def styles_list_def)
  show ?thesis
    using assms
    unfolding generate_apartment_data_def randint_def uniform_def choice_def rent_loop Let_def
      base_rent_def generated_row_def
    by (simp add: len advance_def ac_simps cong: map_cong)
qed

lemma floor_choice_mem:
  "floor_materials_list ! (k mod 5) \<in> {''Hardwood'', ''Carpet'', ''Tile'', ''Laminate'', ''Vinyl''}"
proof -
  have "k mod 5 < length floor_materials_list"
    by (simp add: floor_materials_list_def)
  then have "floor_materials_list ! (k mod 5) \<in> set floor_materials_list"
    by (rule nth_mem)
  then show ?thesis by (simp add: floor_materials_list_def)
qed

lemma style_choice_mem:
  "styles_list ! (k mod 5) \<in>
     {''Modern'', ''Contemporary'', ''Traditional'', ''Industrial'', ''Minimalist''}"
proof -
  have "k mod 5 < length styles_list"
    by (simp add: styles_list_def)
  then have "styles_list ! (k mod 5) \<in> set styles_list"
    by (rule nth_mem)
  then show ?thesis by (simp add: styles_list_def)
qed

lemma factor_range:
  "0.8 \<le> 0.8 + (1.2 - 0.8) * random_sample k \<and> 0.8 + (1.2 - 0.8) * random_sample k \<le> 1.2"
  using random_sample_range [of k] by simp

lemma demo_rows:
  "generate_apartment_data 2 demo_draws =
     Inr [\<lparr>rooms = 3, bathrooms = 3, total_surface = 115, building_age = 49,
           floor_material = ''Hardwood'', style = ''Industrial'', monthly_rent = 3160\<rparr>,
          \<lparr>rooms = 1, bathrooms = 3, total_surface = 72.5, building_age = 0,
           floor_material = ''Carpet'', style = ''Minimalist'', monthly_rent = 2100\<rparr>]"
proof -
  have u: "[0..<2] = [0, 1]" by (simp add: upt_rec)
  have r0: "generated_row demo_draws 2 0 =
      \<lparr>rooms = 3, bathrooms = 3, total_surface = 115, building_age = 49,
       floor_material = ''Hardwood'', style = ''Industrial'', monthly_rent = 3160\<rparr>"
    by (simp add: generated_row_def demo_draws_def random_sample_def floor_materials_list_def
        styles_list_def)
  have r1: "generated_row demo_draws 2 (Suc 0) =
      \<lparr>rooms = 1, bathrooms = 3, total_surface = 72.5, building_age = 0,
       floor_material = ''Carpet'', style = ''Minimalist'', monthly_rent = 2100\<rparr>"
    by (simp add: generated_row_def demo_draws_def random_sample_def floor_materials_list_def
        styles_list_def)
  show ?thesis
    using generate_rows [of 2 2 demo_draws] by (simp add: u r0 r1)
qed

text \<open>
  C5. For \<open>n \<ge> 0\<close>, \<open>generate_apartment_data(n)\<close> returns a table of exactly \<open>n\<close> rows;
  in each row \<open>monthly_rent\<close> is \<open>max(500, (1000 + 300 rooms + 200 bathrooms +
  10 total_surface - 10 building_age) u)\<close> for a factor \<open>u\<close> of the range from 0.8 to 1.2,
  hence at least 500, and \<open>floor_material\<close> and \<open>style\<close> belong to the two fixed
  five-label sets.
\<close>

theorem generated_table:
  assumes "0 \<le> n"
  shows "\<exists>rows. generate_apartment_data n s = Inr rows \<and> length rows = nat n \<and>
     (\<forall>row \<in> set rows.
        (\<exists>u. 0.8 \<le> u \<and> u \<le> 1.2 \<and>
             monthly_rent row =
               max 500 ((1000 + 300 * real_of_int (rooms row) + 200 * real_of_int (bathrooms row)
                         + 10 * total_surface row - 10 * real_of_int (building_age row)) * u))
        \<and> 500 \<le> monthly_rent row
        \<and> floor_material row \<in> {''Hardwood'', ''Carpet'', ''Tile'', ''Laminate'', ''Vinyl''}
        \<and> style row \<in> {''Modern'', ''Contemporary'', ''Traditional'', ''Industrial'', ''Minimalist''})"
proof -
  define N where "N = nat n"
  define rows where "rows = map (generated_row s N) [0..<N]"
  have gen: "generate_apartment_data n s = Inr rows"
    unfolding rows_def by (rule generate_rows [OF assms N_def])
  have len: "length rows = nat n"
    by (simp add: rows_def N_def)
  have each: "(\<exists>u. 0.8 \<le> u \<and> u \<le> 1.2 \<and>
             monthly_rent row =
               max 500 ((1000 + 300 * real_of_int (rooms row) + 200 * real_of_int (bathrooms row)
                         + 10 * total_surface row - 10 * real_of_int (building_age row)) * u))
        \<and> 500 \<le> monthly_rent row
        \<and> floor_material row \<in> {''Hardwood'', ''Carpet'', ''Tile'', ''Laminate'', ''Vinyl''}
        \<and> style row \<in> {''Modern'', ''Contemporary'', ''Traditional'', ''Industrial'', ''Minimalist''}"
    if "row \<in> set rows" for row
  proof -
    from that obtain i where row: "row = generated_row s N i"
      by (auto simp: rows_def)
    let ?u = "0.8 + (1.2 - 0.8) * random_sample (s (i + (N + N + N + N + N + N)))"
    have "monthly_rent row =
            max 500 ((1000 + 300 * real_of_int (rooms row) + 200 * real_of_int (bathrooms row)
                      + 10 * total_surface row - 10 * real_of_int (building_age row)) * ?u)"
      by (simp add: row generated_row_def max.commute algebra_simps)
    with factor_range [of "s (i + (N + N + N + N + N + N))"]
    have u: "\<exists>u. 0.8 \<le> u \<and> u \<le> 1.2 \<and>
             monthly_rent row =
               max 500 ((1000 + 300 * real_of_int (rooms row) + 200 * real_of_int (bathrooms row)
                         + 10 * total_surface row - 10 * real_of_int (building_age row)) * u)"
      by blast
    have r: "500 \<le> monthly_rent row" by (simp add: row generated_row_def)
    have f: "floor_material row \<in> {''Hardwood'', ''Carpet'', ''Tile'', ''Laminate'', ''Vinyl''}"
      using floor_choice_mem [of "s (i + (N + N + N + N))"] by (simp add: row generated_row_def)
    have y: "style row \<in> {''Modern'', ''Contemporary'', ''Traditional'', ''Industrial'', ''Minimalist''}"
      using style_choice_mem [of "s (i + (N + N + N + N + N))"] by (simp add: row generated_row_def)
    from u r f y show ?thesis by blast
  qed
  from gen len each show ?thesis by blast
qed

text \<open>The theorem on a table of two rows.\<close>

theorem generated_table_witness:
  "(0::int) \<le> 2
   \<and> generate_apartment_data 2 demo_draws =
     Inr [\<lparr>rooms = 3, bathrooms = 3, total_surface = 115, building_age = 49,
           floor_material = ''Hardwood'', style = ''Industrial'', monthly_rent = 3160\<rparr>,
          \<lparr>rooms = 1, bathrooms = 3, total_surface = 72.5, building_age = 0,
           floor_material = ''Carpet'', style = ''Minimalist'', monthly_rent = 2100\<rparr>]
   \<and> (\<exists>u. 0.8 \<le> u \<and> u \<le> 1.2 \<and>
          (2100 :: real) = max 500 ((1000 + 300 * 1 + 200 * 3 + 10 * 72.5 - 10 * 0) * u))"
proof -
  from generated_table [of 2 demo_draws]
  have "\<exists>u. 0.8 \<le> u \<and> u \<le> 1.2 \<and>
          (2100 :: real) = max 500 ((1000 + 300 * 1 + 200 * 3 + 10 * 72.5 - 10 * 0) * u)"
    by (simp add: demo_rows)
  then show ?thesis by (simp add: demo_rows)
qed

text \<open>
  C10. Every generated row has \<open>building_age\<close> from 0 to 49, \<open>rooms\<close> from 1 to 5 and
  \<open>bathrooms\<close> from 1 to 3; each value of these ranges is generated by some random
  source. The value \<open>building_age = 50\<close>, which never occurs in the table, is accepted by
  the service's request construction.
\<close>

theorem generated_ranges:
  assumes "0 \<le> n"
  shows "(\<exists>rows. generate_apartment_data n s = Inr rows \<and>
            (\<forall>row \<in> set rows.
               0 \<le> building_age row \<and> building_age row \<le> 49
               \<and> 1 \<le> rooms row \<and> rooms row \<le> 5
               \<and> 1 \<le> bathrooms row \<and> bathrooms row \<le> 3))
       \<and> (\<forall>r \<in> {1..5}. \<exists>s' row. generate_apartment_data 1 s' = Inr [row] \<and> rooms row = r)
       \<and> (\<forall>b \<in> {1..3}. \<exists>s' row. generate_apartment_data 1 s' = Inr [row] \<and> bathrooms row = b)
       \<and> (\<forall>a \<in> {0..49}. \<exists>s' row. generate_apartment_data 1 s' = Inr [row] \<and> building_age row = a)
       \<and> (field_errors f = [] \<longrightarrow> field_errors (f\<lparr>building_age := 50\<rparr>) = [])"
proof -
  define N where "N = nat n"
  have "generate_apartment_data n s = Inr (map (generated_row s N) [0..<N])"
    by (rule generate_rows [OF assms N_def])
  moreover have "0 \<le> building_age row \<and> building_age row \<le> 49
               \<and> 1 \<le> rooms row \<and> rooms row \<le> 5
               \<and> 1 \<le> bathrooms row \<and> bathrooms row \<le> 3"
    if "row \<in> set (map (generated_row s N) [0..<N])" for row
  proof -
    from that obtain i where row: "row = generated_row s N i" by auto
    have "s (i + (N + N + N)) mod 50 < 50" "s i mod 5 < 5" "s (i + N) mod 3 < 3"
      by simp_all
    then have "s (i + (N + N + N)) mod 50 \<le> 49" "s i mod 5 \<le> 4" "s (i + N) mod 3 \<le> 2"
      by linarith+
    then show ?thesis
      unfolding row generated_row_def by simp
  qed
  ultimately have 1: "\<exists>rows. generate_apartment_data n s = Inr rows \<and>
            (\<forall>row \<in> set rows.
               0 \<le> building_age row \<and> building_age row \<le> 49
               \<and> 1 \<le> rooms row \<and> rooms row \<le> 5
               \<and> 1 \<le> bathrooms row \<and> bathrooms row \<le> 3)"
    by blast
  have one: "generate_apartment_data 1 s' = Inr [generated_row s' 1 0]" for s'
    using generate_rows [of 1 1 s'] by simp
  have 2: "\<exists>s' row. generate_apartment_data 1 s' = Inr [row] \<and> rooms row = r"
    if "r \<in> {1..5}" for r :: int
  proof -
    from that have "nat (r - 1) < 5" by auto
    with that have "rooms (generated_row (\<lambda>i. nat (r - 1)) 1 0) = r"
      by (simp add: generated_row_def)
    with one show ?thesis by blast
  qed
  have 3: "\<exists>s' row. generate_apartment_data 1 s' = Inr [row] \<and> bathrooms row = b"
    if "b \<in> {1..3}" for b :: int
  proof -
    from that have "nat (b - 1) < 3" by auto
    with that have "bathrooms (generated_row (\<lambda>i. nat (b - 1)) 1 0) = b"
      by (simp add: generated_row_def)
    with one show ?thesis by blast
  qed
  have 4: "\<exists>s' row. generate_apartment_data 1 s' = Inr [row] \<and> building_age row = a"
    if "a \<in> {0..49}" for a :: int
  proof -
    from that have "nat a < 50" by auto
    with that have "building_age (generated_row (\<lambda>i. nat a) 1 0) = a"
      by (simp add: generated_row_def)
    with one show ?thesis by blast
  qed
  have 5: "field_errors f = [] \<longrightarrow> field_errors (f\<lparr>building_age := 50\<rparr>) = []"
    by (simp add: field_errors_empty_iff)
  from 1 2 3 4 5 show ?thesis by blast
qed

text \<open>
  The theorem on the table of two rows, whose raw draw 50 for the second building age
  gives the age 0.
\<close>

theorem generated_ranges_witness:
  "(0::int) \<le> 2
   \<and> generate_apartment_data 2 demo_draws =
     Inr [\<lparr>rooms = 3, bathrooms = 3, total_surface = 115, building_age = 49,
           floor_material = ''Hardwood'', style = ''Industrial'', monthly_rent = 3160\<rparr>,
          \<lparr>rooms = 1, bathrooms = 3, total_surface = 72.5, building_age = 0,
           floor_material = ''Carpet'', style = ''Minimalist'', monthly_rent = 2100\<rparr>]
   \<and> demo_draws 7 = 50
   \<and> field_errors demo_features = []
   \<and> field_errors (demo_features\<lparr>building_age := 50\<rparr>) = []
   \<and> (\<exists>s' row. generate_apartment_data 1 s' = Inr [row] \<and> rooms row = 5)"
proof -
  have a: "field_errors demo_features = []"
    by (simp add: field_errors_empty_iff demo_features_def)
  have z: "(0::int) \<le> 2" by simp
  note t = generated_ranges [OF z, of demo_draws demo_features]
  from t a have "field_errors (demo_features\<lparr>building_age := 50\<rparr>) = []"
    by blast
  moreover from t have "\<exists>s' row. generate_apartment_data 1 s' = Inr [row] \<and> rooms row = 5"
    by simp
  moreover have "demo_draws 7 = 50"
    by (simp add: demo_draws_def)
  ultimately show ?thesis
    using a by (simp add: demo_rows)
qed

subsection \<open>Trainer\<close>

lemma split_unfold:
  "train_test_split perm xy (2 / 10) =
     (if length xy - nat \<lceil>real (length xy) / 5\<rceil> = 0 then Inl ValueError
      else Inr (map ((!) xy) (take (length xy - nat \<lceil>real (length xy) / 5\<rceil>)
                                (drop (nat \<lceil>real (length xy) / 5\<rceil>) perm)),
                map ((!) xy) (take (nat \<lceil>real (length xy) / 5\<rceil>) perm)))"
proof -
  have eq: "2 / 10 * real (length xy) = real (length xy) / 5" by simp
  show ?thesis
    unfolding train_test_split_def Let_def eq ..
qed

lemma training_count:
  assumes "25 \<le> n"
  shows "20 \<le> n - nat \<lceil>real n / 5\<rceil>"
  using assms by linarith

lemma training_count_small:
  assumes "n < 25"
  shows "n - nat \<lceil>real n / 5\<rceil> < 20"
  using assms by linarith


lemma split_partition:
  assumes "mset perm = mset [0..<length xy]"
    and "train_test_split perm xy (2 / 10) = Inr (train, test)"
  shows "length test = nat \<lceil>real (length xy) / 5\<rceil>"
    and "length train + length test = length xy"
    and "mset train + mset test = mset xy"
proof -
  define k where "k = nat \<lceil>real (length xy) / 5\<rceil>"
  from assms(1) have len: "length perm = length xy"
    by (metis length_upt mset_eq_length minus_nat.diff_0)
  from assms(2) have pos: "length xy - k \<noteq> 0"
    and r: "train = map ((!) xy) (take (length xy - k) (drop k perm))"
    and t: "test = map ((!) xy) (take k perm)"
    unfolding split_unfold k_def by (simp_all split: if_splits)
  from pos have kn: "k < length xy" by simp
  have all: "take (length xy - k) (drop k perm) = drop k perm"
    by (simp add: len)
  show "length test = nat \<lceil>real (length xy) / 5\<rceil>"
    using kn unfolding k_def [symmetric] by (simp add: t len)
  show "length train + length test = length xy"
    using kn by (simp add: r t len)
  have td: "mset (take k perm) + mset (drop k perm) = mset perm"
    by (metis append_take_drop_id mset_append)
  have "mset train + mset test =
      image_mset ((!) xy) (mset (take k perm) + mset (drop k perm))"
    unfolding r t all by simp
  also have "\<dots> = image_mset ((!) xy) (mset perm)"
    unfolding td ..
  also have "\<dots> = mset (map ((!) xy) [0..<length xy])"
    unfolding assms(1) by simp
  also have "\<dots> = mset xy"
    by (simp add: map_nth)
  finally show "mset train + mset test = mset xy" .
qed

lemma split_succeeds:
  assumes "2 \<le> length xy"
  shows "\<exists>train test. train_test_split perm xy (2 / 10) = Inr (train, test)"
proof -
  have "nat \<lceil>real (length xy) / 5\<rceil> < length xy"
    using assms by linarith
  then show ?thesis
    unfolding split_unfold by simp
qed

lemma enough_residuals:
  "real n < max (1 / (5 / 100)) (1 / (1 - 5 / 100)) \<longleftrightarrow> n < 20"
  by (simp add: max_def)

lemma demo_training_length: "length training_df = 27"
  by (simp add: training_df_def demo_df_def length_concat sum_list_replicate)

text \<open>
  C6. On a data set of at least 25 rows (so that the training subset holds the 20
  calibration residuals that intervals at alpha = 0.05 need) the trainer returns, and in
  what it returns: the rows are split 80/20, the held-out subset having a fifth of the rows
  rounded up; the two subsets together are the rows of the data set, each exactly once,
  each as its six features in order (\<open>rooms\<close>, \<open>bathrooms\<close>, \<open>total_surface\<close>,
  \<open>building_age\<close>, and the two labels as encoder codes that decode to the labels) with
  its rent; the regressor is fitted on the training subset only; the conformal wrapper is
  in prefit mode and its estimator is that fitted regressor, not a refitted one, with the
  calibration residuals computed from it; and the held-out intervals are computed at
  alpha = 0.05.
\<close>

theorem trainer_pipeline:
  assumes "25 \<le> length df"
    and "mset (shuffled L (length df)) = mset [0..<length df]"
  shows "\<exists>r. train_model L df = Inr r
     \<and> length (test_rows r) = nat \<lceil>real (length df) / 5\<rceil>
     \<and> length (train_rows r) + length (test_rows r) = length df
     \<and> mset (train_rows r) + mset (test_rows r) =
         mset (map (\<lambda>row.
                 ([real_of_int (rooms row), real_of_int (bathrooms row), total_surface row,
                   real_of_int (building_age row),
                   real (index_of (classes (fst (encoders r))) (floor_material row)),
                   real (index_of (classes (snd (encoders r))) (style row))],
                  monthly_rent row)) df)
     \<and> (\<forall>row \<in> set df.
          inverse_transform (fst (encoders r))
            (index_of (classes (fst (encoders r))) (floor_material row)) = Inr (floor_material row)
          \<and> inverse_transform (snd (encoders r))
            (index_of (classes (snd (encoders r))) (style row)) = Inr (style row))
     \<and> base_model r = forest_fit L (train_rows r)
     \<and> cv (mapie r) = ''prefit''
     \<and> estimator (mapie r) = base_model r
     \<and> conformity_scores (mapie r) = residuals (base_model r) (train_rows r)
     \<and> y_pis r = map (\<lambda>x. mapie_predict L (mapie r) x (5 / 100)) (map fst (test_rows r))"
proof -
  define xy where "xy = map (\<lambda>row. (encoded_features (fit_encoders df) row, monthly_rent row)) df"
  have len: "length xy = length df" by (simp add: xy_def)
  from assms(1) len obtain train test
    where sp: "train_test_split (shuffled L (length df)) xy (2 / 10) = Inr (train, test)"
    using split_succeeds [of xy "shuffled L (length df)"] by auto
  from assms(2) len have perm: "mset (shuffled L (length df)) = mset [0..<length xy]"
    by simp
  note part = split_partition [OF perm sp]
  from part(1,2) have ntrain: "length train = length df - nat \<lceil>real (length df) / 5\<rceil>"
    unfolding len by linarith
  with training_count [OF assms(1)] have enough: "\<not> length train < 20"
    by simp
  define wrapper where "wrapper = mapie_fit L \<lparr>estimator = forest_fit L train,
      conformal_method = ''plus'', cv = ''prefit'', conformity_scores = []\<rparr> train"
  have w: "cv wrapper = ''prefit''" "estimator wrapper = forest_fit L train"
    "conformity_scores wrapper = residuals (forest_fit L train) train"
    by (simp_all add: wrapper_def mapie_fit_def)
  have wp: "wrapper_predict L wrapper (map fst test) (5 / 100) =
      Inr (map (\<lambda>x. mapie_predict L wrapper x (5 / 100)) (map fst test))"
    unfolding wrapper_predict_def enough_residuals w
    using enough by (simp add: residuals_def)
  define r where "r = \<lparr>encoders = fit_encoders df, train_rows = train, test_rows = test,
      base_model = forest_fit L train, mapie = wrapper,
      y_pis = map (\<lambda>x. mapie_predict L wrapper x (5 / 100)) (map fst test)\<rparr>"
  have run: "train_model L df = Inr r"
    by (simp only: train_model_def Let_def xy_def [symmetric] sp sum.case prod.case
        wrapper_def [symmetric] wp r_def)
  have sizes: "length (test_rows r) = nat \<lceil>real (length df) / 5\<rceil>"
    "length (train_rows r) + length (test_rows r) = length df"
    using part(1,2) by (simp_all add: r_def len)
  have rows: "mset (train_rows r) + mset (test_rows r) =
         mset (map (\<lambda>row.
                 ([real_of_int (rooms row), real_of_int (bathrooms row), total_surface row,
                   real_of_int (building_age row),
                   real (index_of (classes (fst (encoders r))) (floor_material row)),
                   real (index_of (classes (snd (encoders r))) (style row))],
                  monthly_rent row)) df)"
    using part(3) by (simp add: r_def xy_def encoded_features_def)
  have codes: "inverse_transform (fst (encoders r))
            (index_of (classes (fst (encoders r))) (floor_material row)) = Inr (floor_material row)
          \<and> inverse_transform (snd (encoders r))
            (index_of (classes (snd (encoders r))) (style row)) = Inr (style row)"
    if "row \<in> set df" for row
  proof -
    from that have "floor_material row \<in> set (classes (fit (map floor_material df)))"
      "style row \<in> set (classes (fit (map style df)))"
      by (simp_all add: set_classes_fit)
    then show ?thesis
      by (simp add: r_def fit_encoders_def inverse_transform_def index_of_nth)
  qed
  have rest: "base_model r = forest_fit L (train_rows r)"
    "cv (mapie r) = ''prefit''"
    "estimator (mapie r) = base_model r"
    "conformity_scores (mapie r) = residuals (base_model r) (train_rows r)"
    "y_pis r = map (\<lambda>x. mapie_predict L (mapie r) x (5 / 100)) (map fst (test_rows r))"
    by (simp_all add: r_def w)
  from run sizes rows codes rest show ?thesis by blast
qed

text \<open>On fewer than 25 rows the run raises: in the split, or when it asks for the intervals.\<close>

lemma train_model_too_few_rows:
  assumes "length df < 25"
    and "mset (shuffled L (length df)) = mset [0..<length df]"
  shows "train_model L df = Inl ValueError"
proof -
  define xy where "xy = map (\<lambda>row. (encoded_features (fit_encoders df) row, monthly_rent row)) df"
  have len: "length xy = length df" by (simp add: xy_def)
  from assms(2) len have perm: "mset (shuffled L (length df)) = mset [0..<length xy]"
    by simp
  show ?thesis
  proof (cases "train_test_split (shuffled L (length df)) xy (2 / 10)")
    case (Inl e)
    then have "e = ValueError"
      unfolding split_unfold by (simp split: if_splits)
    with Inl show ?thesis
      by (simp only: train_model_def Let_def xy_def [symmetric] sum.case)
  next
    case (Inr p)
    obtain train test where p: "p = (train, test)" by (cases p)
    note part = split_partition [OF perm Inr [unfolded p]]
    from part(1,2) have "length train = length df - nat \<lceil>real (length df) / 5\<rceil>"
      unfolding len by linarith
    with training_count_small [OF assms(1)] have few: "length train < 20"
      by simp
    have "wrapper_predict L (mapie_fit L \<lparr>estimator = forest_fit L train,
        conformal_method = ''plus'', cv = ''prefit'', conformity_scores = []\<rparr> train)
        (map fst test) (5 / 100) = Inl ValueError"
      unfolding wrapper_predict_def enough_residuals
      using few by (simp add: mapie_fit_def residuals_def)
    then show ?thesis
      by (simp only: train_model_def Let_def xy_def [symmetric] Inr p sum.case prod.case)
  qed
qed

text \<open>The theorem on the data set of 27 rows: six rows held out, 21 for training.\<close>

theorem trainer_pipeline_witness:
  "25 \<le> length training_df
   \<and> mset (shuffled demo_learners (length training_df)) = mset [0..<length training_df]
   \<and> (\<exists>r. train_model demo_learners training_df = Inr r
         \<and> length (test_rows r) = 6
         \<and> length (train_rows r) + length (test_rows r) = 27
         \<and> base_model r = forest_fit demo_learners (train_rows r)
         \<and> cv (mapie r) = ''prefit''
         \<and> estimator (mapie r) = base_model r)"
proof -
  have a: "25 \<le> length training_df" by (simp add: demo_training_length)
  have b: "mset (shuffled demo_learners (length training_df)) = mset [0..<length training_df]"
    by (simp add: demo_learners_def)
  have d: "nat \<lceil>real 27 / 5\<rceil> = 6"
    by linarith
  from trainer_pipeline [OF a b] obtain r where
    "train_model demo_learners training_df = Inr r"
    "length (test_rows r) = nat \<lceil>real (length training_df) / 5\<rceil>"
    "length (train_rows r) + length (test_rows r) = length training_df"
    "base_model r = forest_fit demo_learners (train_rows r)"
    "cv (mapie r) = ''prefit''"
    "estimator (mapie r) = base_model r"
    by blast
  then have "\<exists>r. train_model demo_learners training_df = Inr r
         \<and> length (test_rows r) = 6
         \<and> length (train_rows r) + length (test_rows r) = 27
         \<and> base_model r = forest_fit demo_learners (train_rows r)
         \<and> cv (mapie r) = ''prefit''
         \<and> estimator (mapie r) = base_model r"
    unfolding demo_training_length d by blast
  with a b show ?thesis by blast
qed

end
